theory Spec2Isabelle
  imports Complex_Main "HOL-Library.Char_ord" "HOL-Library.List_Lexorder" "HOL-Library.Multiset"
begin

section \<open>The \<open>daily_records\<close> table\<close>

text \<open>
  \<open>App.js\<close> keeps all its data in one SQLite table, \<open>daily_records\<close>, and drives it
  with a handful of SQL statements. The table is modelled as the list of its rows in rowid
  order, the list of its column names as \<open>PRAGMA table_info\<close> reports them, and the
  counter that \<open>AUTOINCREMENT\<close> keeps in \<open>sqlite_sequence\<close>.

  A row carries the columns of \<open>createNewTable\<close> and the legacy column \<open>credits\<close> that
  \<open>checkAndMigrateSchema\<close> reads. A numeric or text column may hold NULL (\<open>None\<close>): the
  code guards its reads with \<open>|| 0\<close>, \<open>|| ''\<close>, \<open>COALESCE\<close> and \<open>IS NOT NULL\<close>. The
  \<open>date\<close> column is always bound to the string of the date field. \<open>created_at\<close> is the
  clock reading at insertion. A column that the table does not have (an older schema) reads
  NULL in every row until \<open>ALTER TABLE\<close> adds it.

  Numbers. A cell of an \<open>INTEGER\<close> column is a 64-bit integer, and the engine adds such
  cells in 64 bits: \<open>SUM\<close> fails with an integer overflow when its running total leaves
  that range. A
  cell of a \<open>REAL\<close> column is a finite floating-point number, written as the real number it
  denotes. The floating-point operations that round (the \<open>+\<close> of the language in
  \<open>addCreditOnly\<close>, the product and the \<open>SUM\<close> of the engine in \<open>calculateSummary\<close>) are
  not defined by the program: they are parameters of the functions that use them, and
  nothing is assumed of them.
\<close>

record row =
  row_id :: int
  date :: string
  produced_eggs :: "int option"
  breakages :: "int option"
  sold_eggs :: "int option"
  price_per_egg :: "real option"
  credit_amount :: "real option"
  credit_name :: "string option"
  created_at :: nat
  credits :: "real option"

record table =
  columns :: "string list"
  rows :: "row list"
  seq :: int

datatype error =
    Invalid
  | NoSuchColumn
  | DuplicateColumn string
  | UniqueViolation
  | IntegerOverflow

text \<open>
  \<open>Invalid\<close> is the early return after \<open>Alert.alert('Error', ...)\<close>: no statement is
  issued. The other errors are the engine's: a statement names a column the table does not
  have, \<open>ALTER TABLE ADD COLUMN\<close> names a column it already has, a plain \<open>INSERT\<close>
  repeats a \<open>date\<close>, or a \<open>SUM\<close> of integers overflows. A statement that fails leaves the
  table as it was.
\<close>

definition has_columns :: "string list \<Rightarrow> table \<Rightarrow> bool" where
  "has_columns cs t = (set cs \<subseteq> set (columns t))"

subsection \<open>Schema: \<open>createNewTable\<close>, \<open>checkAndMigrateSchema\<close>, \<open>initializeDatabase\<close>\<close>

definition full_columns :: "string list" where
  "full_columns =
     [''id'', ''date'', ''produced_eggs'', ''breakages'', ''sold_eggs'', ''price_per_egg'',
      ''credit_amount'', ''credit_name'', ''created_at'']"

text \<open>\<open>CREATE TABLE IF NOT EXISTS\<close>: a database without the table gets an empty one with the
  full schema; an existing table is left alone. \<open>None\<close> is the database without the table.\<close>

definition createNewTable :: "table option \<Rightarrow> table option" where
  "createNewTable db =
     (case db of
        None \<Rightarrow> Some \<lparr>columns = full_columns, rows = [], seq = 0\<rparr>
      | Some t \<Rightarrow> Some t)"

text \<open>The four statements \<open>checkAndMigrateSchema\<close> can push onto \<open>migrations\<close>.\<close>

datatype stmt =
    AddSoldEggs
  | AddCreditAmount
  | AddCreditName
  | CopyCredits

text \<open>\<open>ALTER TABLE daily_records ADD COLUMN c ... DEFAULT v\<close>: the engine refuses a column
  name the table already has; otherwise the column is appended and every existing row reads
  the default in it.\<close>

definition add_column :: "string \<Rightarrow> (row \<Rightarrow> row) \<Rightarrow> table \<Rightarrow> error + table" where
  "add_column c dflt t =
     (if c \<in> set (columns t) then Inl (DuplicateColumn c)
      else Inr (t\<lparr>columns := columns t @ [c], rows := map dflt (rows t)\<rparr>))"

text \<open>\<open>UPDATE daily_records SET credit_amount = credits
  WHERE credit_amount = 0 AND credits IS NOT NULL\<close>.\<close>

definition copy_credits :: "row \<Rightarrow> row" where
  "copy_credits r =
     (if credit_amount r = Some 0 \<and> credits r \<noteq> None then r\<lparr>credit_amount := credits r\<rparr>
      else r)"

fun exec :: "stmt \<Rightarrow> table \<Rightarrow> error + table" where
  "exec AddSoldEggs t = add_column ''sold_eggs'' (\<lambda>r. r\<lparr>sold_eggs := Some 0\<rparr>) t"
| "exec AddCreditAmount t = add_column ''credit_amount'' (\<lambda>r. r\<lparr>credit_amount := Some 0\<rparr>) t"
| "exec AddCreditName t = add_column ''credit_name'' (\<lambda>r. r\<lparr>credit_name := Some ''''\<rparr>) t"
| "exec CopyCredits t =
     (if has_columns [''credit_amount'', ''credits''] t
      then Inr (t\<lparr>rows := map copy_credits (rows t)\<rparr>)
      else Inl NoSuchColumn)"

text \<open>
  \<open>Promise.all(migrations)\<close>: every \<open>db.runAsync\<close> call has been issued by the time the
  array is built, so every statement runs, in the order of issue on the one connection, each
  committed on its own; a statement that fails changes nothing and does not stop the later
  ones. The result is the table after all of them and the errors raised, first one first
  (the one \<open>Promise.all\<close> rejects with).
\<close>

fun run_all :: "stmt list \<Rightarrow> table \<Rightarrow> table \<times> error list" where
  "run_all [] t = (t, [])"
| "run_all (s # ss) t =
     (case exec s t of
        Inl e \<Rightarrow> (case run_all ss t of (t', es) \<Rightarrow> (t', e # es))
      | Inr t1 \<Rightarrow> run_all ss t1)"

definition migrations :: "string list \<Rightarrow> stmt list" where
  "migrations columnNames =
     (if ''sold_eggs'' \<in> set columnNames then [] else [AddSoldEggs]) @
     (if ''credit_amount'' \<in> set columnNames then [] else [AddCreditAmount]) @
     (if ''credit_name'' \<in> set columnNames then [] else [AddCreditName]) @
     (if ''credits'' \<in> set columnNames
      then (if ''credit_amount'' \<in> set columnNames then [] else [AddCreditAmount]) @
           [CopyCredits]
      else [])"

definition checkAndMigrateSchema :: "table \<Rightarrow> table \<times> error list" where
  "checkAndMigrateSchema t = run_all (migrations (columns t)) t"

text \<open>
  \<open>initializeDatabase\<close>: create the table when \<open>sqlite_master\<close> does not list it, migrate
  it otherwise; a rejection is logged (\<open>'Database init error: '\<close>) and answered with
  \<open>createNewTable\<close>. The result is the database and the logged error, if any.
\<close>

definition initializeDatabase :: "table option \<Rightarrow> table option \<times> error option" where
  "initializeDatabase db =
     (case db of
        None \<Rightarrow> (createNewTable db, None)
      | Some t \<Rightarrow>
          (case checkAndMigrateSchema t of
             (t', []) \<Rightarrow> (Some t', None)
           | (t', e # es) \<Rightarrow> (createNewTable (Some t'), Some e)))"

subsection \<open>Form fields and JavaScript numbers\<close>

text \<open>
  The form keeps every entry as text. A field is blank (\<open>!field\<close> holds), or it is text
  from which \<open>parseInt\<close>/\<open>parseFloat\<close> reads no number (the result is NaN), or it parses
  to a value. A number that may be NaN is an \<open>option\<close>, \<open>None\<close> being NaN; the engine
  stores a NaN parameter as NULL.
\<close>

datatype 'a field = Blank | Unparsable | Parsed 'a

fun parse :: "'a field \<Rightarrow> 'a option" where
  "parse Blank = None"
| "parse Unparsable = None"
| "parse (Parsed v) = Some v"

text \<open>\<open>x || 0\<close> on a number, NaN or NULL: every falsy value becomes 0, and 0 is 0.\<close>

definition or0 :: "'a::zero option \<Rightarrow> 'a" where
  "or0 x = (case x of None \<Rightarrow> 0 | Some v \<Rightarrow> v)"

text \<open>\<open>x > y\<close> and \<open>x <= 0\<close> are false when an operand is NaN.\<close>

definition js_gt :: "int \<Rightarrow> int option \<Rightarrow> bool" where
  "js_gt x y = (case y of None \<Rightarrow> False | Some v \<Rightarrow> x > v)"

definition js_le0 :: "real option \<Rightarrow> bool" where
  "js_le0 x = (case x of None \<Rightarrow> False | Some v \<Rightarrow> v \<le> 0)"

record form =
  f_date :: string
  f_producedEggs :: "int field"
  f_breakages :: "int field"
  f_soldEggs :: "int field"
  f_pricePerEgg :: "real field"
  f_creditAmount :: "real field"
  f_creditName :: string

subsection \<open>Writes: \<open>saveDailyRecord\<close>, \<open>addCreditOnly\<close>, \<open>deleteRecord\<close>\<close>

text \<open>\<open>id INTEGER PRIMARY KEY AUTOINCREMENT\<close>: a row inserted without an id gets one more
  than the largest id the table holds or has ever held.\<close>

definition next_id :: "table \<Rightarrow> int" where
  "next_id t = fold max (map row_id (rows t)) (seq t) + 1"

definition insert_columns :: "string list" where
  "insert_columns =
     [''date'', ''produced_eggs'', ''breakages'', ''sold_eggs'', ''price_per_egg'',
      ''credit_amount'', ''credit_name'']"

text \<open>The row an \<open>INSERT\<close> of the seven named columns makes: \<open>id\<close> and \<open>created_at\<close> take
  their defaults (the next id, \<open>CURRENT_TIMESTAMP\<close>), and a legacy \<open>credits\<close> column, not
  named by the statement, is NULL.\<close>

definition new_row ::
  "int \<Rightarrow> nat \<Rightarrow> string \<Rightarrow> int option \<Rightarrow> int option \<Rightarrow> int option \<Rightarrow> real option \<Rightarrow>
   real option \<Rightarrow> string option \<Rightarrow> row" where
  "new_row i now d p b s pr ca cn =
     \<lparr>row_id = i, date = d, produced_eggs = p, breakages = b, sold_eggs = s,
      price_per_egg = pr, credit_amount = ca, credit_name = cn, created_at = now,
      credits = None\<rparr>"

text \<open>\<open>INSERT OR REPLACE INTO daily_records (date, ...) VALUES (?, ?, ?, ?, ?, ?, ?)\<close>:
  the rows that hold the same \<open>date\<close> (the \<open>UNIQUE\<close> column) are deleted and the new row is
  inserted; \<open>changes\<close> is 1.\<close>

definition insert_or_replace ::
  "nat \<Rightarrow> string \<Rightarrow> int option \<Rightarrow> int option \<Rightarrow> int option \<Rightarrow> real option \<Rightarrow>
   real option \<Rightarrow> string option \<Rightarrow> table \<Rightarrow> error + table \<times> nat" where
  "insert_or_replace now d p b s pr ca cn t =
     (if has_columns insert_columns t
      then Inr (t\<lparr>rows := filter (\<lambda>r. date r \<noteq> d) (rows t) @
                            [new_row (next_id t) now d p b s pr ca cn],
                   seq := next_id t\<rparr>, 1)
      else Inl NoSuchColumn)"

text \<open>\<open>INSERT INTO daily_records (date, ...) VALUES (...)\<close>: a \<open>date\<close> the table already
  holds violates the \<open>UNIQUE\<close> constraint.\<close>

definition insert_row ::
  "nat \<Rightarrow> string \<Rightarrow> int option \<Rightarrow> int option \<Rightarrow> int option \<Rightarrow> real option \<Rightarrow>
   real option \<Rightarrow> string option \<Rightarrow> table \<Rightarrow> error + table \<times> nat" where
  "insert_row now d p b s pr ca cn t =
     (if has_columns insert_columns t
      then (if d \<in> set (map date (rows t)) then Inl UniqueViolation
            else Inr (t\<lparr>rows := rows t @ [new_row (next_id t) now d p b s pr ca cn],
                         seq := next_id t\<rparr>, 1))
      else Inl NoSuchColumn)"

text \<open>\<open>saveDailyRecord\<close>, at clock reading \<open>now\<close>, on the form \<open>f\<close>.\<close>

definition saveDailyRecord :: "nat \<Rightarrow> form \<Rightarrow> table \<Rightarrow> error + table \<times> nat" where
  "saveDailyRecord now f t =
     (if f_producedEggs f = Blank \<or> f_pricePerEgg f = Blank then Inl Invalid
      else
        let breakagesValue = or0 (parse (f_breakages f));
            soldEggsValue = or0 (parse (f_soldEggs f));
            creditAmountValue = or0 (parse (f_creditAmount f));
            priceValue = parse (f_pricePerEgg f);
            availableEggs = map_option (\<lambda>p. p - breakagesValue) (parse (f_producedEggs f))
        in if js_gt soldEggsValue availableEggs then Inl Invalid
           else insert_or_replace now (f_date f) (parse (f_producedEggs f))
                  (Some breakagesValue) (Some soldEggsValue) priceValue
                  (Some creditAmountValue) (Some (f_creditName f)) t)"

text \<open>The columns a save writes, for comparing what two saves leave in a record.\<close>

definition stored_values ::
  "row \<Rightarrow> string \<times> int option \<times> int option \<times> int option \<times> real option \<times> real option \<times>
     string option" where
  "stored_values r =
     (date r, produced_eggs r, breakages r, sold_eggs r, price_per_egg r, credit_amount r,
      credit_name r)"

text \<open>\<open>db.getFirstAsync('SELECT * FROM daily_records WHERE date = ?', [date])\<close>: the first
  row of that date, or null.\<close>

definition select_by_date :: "string \<Rightarrow> table \<Rightarrow> error + row option" where
  "select_by_date d t =
     (if has_columns [''date''] t then Inr (find (\<lambda>r. date r = d) (rows t))
      else Inl NoSuchColumn)"

text \<open>\<open>UPDATE daily_records SET credit_amount = ?, credit_name = ? WHERE date = ?\<close>;
  \<open>changes\<close> counts the rows of that date.\<close>

definition update_credit :: "real option \<Rightarrow> string \<Rightarrow> string \<Rightarrow> table \<Rightarrow> error + table \<times> nat" where
  "update_credit ca cn d t =
     (if has_columns [''credit_amount'', ''credit_name'', ''date''] t
      then Inr (t\<lparr>rows := map (\<lambda>r. if date r = d
                                     then r\<lparr>credit_amount := ca, credit_name := Some cn\<rparr>
                                     else r) (rows t)\<rparr>,
                length (filter (\<lambda>r. date r = d) (rows t)))
      else Inl NoSuchColumn)"

text \<open>The merged name: \<open>existingRecord.credit_name ? `${existingRecord.credit_name},
  ${creditName}` : creditName\<close>. NULL and the empty string are falsy.\<close>

definition newCreditName :: "string option \<Rightarrow> string \<Rightarrow> string" where
  "newCreditName existing creditName =
     (case existing of
        None \<Rightarrow> creditName
      | Some n \<Rightarrow> if n = [] then creditName else n @ '', '' @ creditName)"

text \<open>\<open>(existingRecord.credit_amount || 0) + parseFloat(creditAmount)\<close>; NaN when the
  field does not parse. \<open>fadd\<close> is the \<open>+\<close> of the language on two numbers, the rounded
  floating-point sum.\<close>

definition newCreditAmount ::
  "(real \<Rightarrow> real \<Rightarrow> real) \<Rightarrow> real option \<Rightarrow> real option \<Rightarrow> real option" where
  "newCreditAmount fadd existing amount = map_option (\<lambda>a. fadd (or0 existing) a) amount"

text \<open>\<open>addCreditOnly\<close> once the dialog is answered with OK, at clock reading \<open>now\<close>.\<close>

definition addCreditOnly ::
  "(real \<Rightarrow> real \<Rightarrow> real) \<Rightarrow> nat \<Rightarrow> form \<Rightarrow> table \<Rightarrow> error + table \<times> nat" where
  "addCreditOnly fadd now f t =
     (if f_creditAmount f = Blank \<or> js_le0 (parse (f_creditAmount f)) \<or> f_creditName f = []
      then Inl Invalid
      else
        (case select_by_date (f_date f) t of
           Inl e \<Rightarrow> Inl e
         | Inr (Some existingRecord) \<Rightarrow>
             update_credit
               (newCreditAmount fadd (credit_amount existingRecord) (parse (f_creditAmount f)))
               (newCreditName (credit_name existingRecord) (f_creditName f))
               (f_date f) t
         | Inr None \<Rightarrow>
             insert_row now (f_date f) (Some 0) (Some 0) (Some 0) (Some 0)
               (parse (f_creditAmount f)) (Some (f_creditName f)) t))"

text \<open>\<open>deleteRecord(id)\<close> once the dialog is answered with Delete:
  \<open>DELETE FROM daily_records WHERE id = ?\<close>.\<close>

definition deleteRecord :: "int \<Rightarrow> table \<Rightarrow> error + table \<times> nat" where
  "deleteRecord i t =
     (if has_columns [''id''] t
      then Inr (t\<lparr>rows := filter (\<lambda>r. row_id r \<noteq> i) (rows t)\<rparr>,
                length (filter (\<lambda>r. row_id r = i) (rows t)))
      else Inl NoSuchColumn)"

subsection \<open>Reads: \<open>calculateSummary\<close>, \<open>exportData\<close>\<close>

text \<open>The values of a column in row order, NULL cells left out: the aggregate \<open>SUM\<close> skips
  NULL and is NULL when it has met no value.\<close>

fun present :: "'a option list \<Rightarrow> 'a list" where
  "present [] = []"
| "present (None # xs) = present xs"
| "present (Some v # xs) = v # present xs"

text \<open>\<open>SUM\<close> over \<open>INTEGER\<close> cells keeps its running total in a signed 64-bit integer; once
  an addition leaves that range the aggregate ends in the error \<open>integer overflow\<close>.\<close>

definition in_int64 :: "int \<Rightarrow> bool" where
  "in_int64 v = (- (2 ^ 63) \<le> v \<and> v < 2 ^ 63)"









text \<open>The running totals of a list of integers from a starting value, for saying when a
  sum stays in range.\<close>

fun running_totals :: "int \<Rightarrow> int list \<Rightarrow> int list" where
  "running_totals acc [] = []"
| "running_totals acc (v # vs) = (acc + v) # running_totals (acc + v) vs"

definition dquote :: char where
  "dquote = CHR 0x22"

definition newline :: char where
  "newline = CHR 0x0A"

definition csv_header :: string where
  "csv_header =
     ''Date,Produced Eggs,Breakages,Sold Eggs,Remaining Eggs,Price Per Egg,Cash Sales,Credit Amount,Credit Name''
     @ [newline]"

text \<open>
  One line of the export, as the template literal builds it. \<open>numstr\<close> is the language's
  conversion of a number to text inside a template literal, which the program does not define;
  it is a parameter. \<open>record.credit_name || ''\<close> reads NULL as the empty string.
\<close>

definition csv_line :: "(real \<Rightarrow> string) \<Rightarrow> row \<Rightarrow> string" where
  "csv_line numstr record =
     (let remainingEggs =
            or0 (produced_eggs record) - or0 (breakages record) - or0 (sold_eggs record);
          cashSales = real_of_int (or0 (sold_eggs record)) * or0 (price_per_egg record)
      in date record @ '','' @
         numstr (real_of_int (or0 (produced_eggs record))) @ '','' @
         numstr (real_of_int (or0 (breakages record))) @ '','' @
         numstr (real_of_int (or0 (sold_eggs record))) @ '','' @
         numstr (real_of_int remainingEggs) @ '','' @
         numstr (or0 (price_per_egg record)) @ '','' @
         numstr cashSales @ '','' @
         numstr (or0 (credit_amount record)) @ '','' @
         [dquote] @ (case credit_name record of None \<Rightarrow> [] | Some n \<Rightarrow> n) @ [dquote] @
         [newline])"

text \<open>
  \<open>exportData\<close>: \<open>SELECT * FROM daily_records ORDER BY date\<close> compares the dates byte by
  byte, which is the order of \<^typ>\<open>string\<close>; no text is built when there is no record
  (\<open>'No data to export'\<close>), otherwise \<open>forEach\<close> appends one line per record to the header.
  The result is the text logged, if any.
\<close>

definition exportData :: "(real \<Rightarrow> string) \<Rightarrow> table \<Rightarrow> error + string option" where
  "exportData numstr t =
     (if has_columns [''date''] t
      then (let records = sort_key date (rows t)
            in if length records = 0 then Inr None
               else Inr (Some (fold (\<lambda>record csv. csv @ csv_line numstr record) records csv_header)))
      else Inl NoSuchColumn)"

subsection \<open>Reading the export back\<close>

text \<open>
  What a consumer of the export expects of one record is the grammar of RFC 4180: fields
  separated by commas; a field is either free of double quotes, commas and line breaks, or
  enclosed in double quotes, and inside the quotes a double quote is written twice; every
  record has as many fields as the header row, which is nine here. The recogniser below
  reads a record in one pass and counts its fields (\<open>None\<close> when the text is no record);
  the export ends each record with a line feed.
\<close>

datatype csv_state = FieldStart | Plain | Quoted | QuoteSeen

fun csv_fields :: "csv_state \<Rightarrow> string \<Rightarrow> nat option" where
  "csv_fields FieldStart [] = Some 1"
| "csv_fields Plain [] = Some 1"
| "csv_fields Quoted [] = None"
| "csv_fields QuoteSeen [] = Some 1"
| "csv_fields FieldStart (c # cs) =
     (if c = dquote then csv_fields Quoted cs
      else if c = CHR '','' then map_option Suc (csv_fields FieldStart cs)
      else if c = newline \<or> c = CHR 0x0D then None
      else csv_fields Plain cs)"
| "csv_fields Plain (c # cs) =
     (if c = dquote then None
      else if c = CHR '','' then map_option Suc (csv_fields FieldStart cs)
      else if c = newline \<or> c = CHR 0x0D then None
      else csv_fields Plain cs)"
| "csv_fields Quoted (c # cs) =
     (if c = dquote then csv_fields QuoteSeen cs else csv_fields Quoted cs)"
| "csv_fields QuoteSeen (c # cs) =
     (if c = dquote then csv_fields Quoted cs
      else if c = CHR '','' then map_option Suc (csv_fields FieldStart cs)
      else None)"

definition csv_record :: "string \<Rightarrow> bool" where
  "csv_record line =
     (if line = [] then False
      else last line = newline \<and> csv_fields FieldStart (butlast line) = Some 9)"

text \<open>Every double quote of a text is doubled: read from the left, each double quote is
  followed at once by a second one, which pairs with it. And a text is plain when it holds
  no double quote, comma or line break, so that it can stand as a field without quotes.\<close>

fun quotes_doubled :: "string \<Rightarrow> bool" where
  "quotes_doubled [] = True"
| "quotes_doubled [c] = (c \<noteq> dquote)"
| "quotes_doubled (c # d # cs) =
     (if c = dquote then d = dquote \<and> quotes_doubled cs else quotes_doubled (d # cs))"

definition plain_text :: "string \<Rightarrow> bool" where
  "plain_text s = (set s \<inter> {dquote, CHR '','', newline, CHR 0x0D} = {})"


fun decimal :: "nat \<Rightarrow> string" where
  "decimal n =
     (if n < 10 then [''0123456789'' ! n]
      else decimal (n div 10) @ [''0123456789'' ! (n mod 10)])"

declare decimal.simps [simp del]

section \<open>Forms and tables of the examples\<close>

text \<open>The examples apply the floating-point operations to small whole numbers and to
  \<open>1.5\<close>, where they are exact: there the sum of the language is \<open>(+)\<close>, and the sum
  and the product of the engine are \<open>sum_list\<close> and the exact product.\<close>

text \<open>The two records of the specification's summary example, as rows 1 and 2 of a table
  with the full schema, entered at clock readings 100 and 200.\<close>

definition row_d1 :: row where
  "row_d1 = \<lparr>row_id = 1, date = ''2024-01-01'', produced_eggs = Some 10, breakages = Some 1,
             sold_eggs = Some 5, price_per_egg = Some 2, credit_amount = Some 3,
             credit_name = Some ''Asha'', created_at = 100, credits = None\<rparr>"

definition row_d2 :: row where
  "row_d2 = \<lparr>row_id = 2, date = ''2024-01-02'', produced_eggs = Some 20, breakages = Some 0,
             sold_eggs = Some 10, price_per_egg = Some (3 / 2), credit_amount = Some 0,
             credit_name = Some [], created_at = 200, credits = None\<rparr>"

definition two_days :: table where
  "two_days = \<lparr>columns = full_columns, rows = [row_d1, row_d2], seq = 2\<rparr>"

text \<open>The form as it stands when only a credit is entered for the date \<open>d\<close>.\<close>

definition credit_form :: "string \<Rightarrow> real \<Rightarrow> string \<Rightarrow> form" where
  "credit_form d amount name =
     \<lparr>f_date = d, f_producedEggs = Blank, f_breakages = Blank, f_soldEggs = Blank,
      f_pricePerEgg = Blank, f_creditAmount = Parsed amount, f_creditName = name\<rparr>"

text \<open>A form with every field filled in.\<close>

definition full_form ::
  "string \<Rightarrow> int \<Rightarrow> int \<Rightarrow> int \<Rightarrow> real \<Rightarrow> real \<Rightarrow> string \<Rightarrow> form" where
  "full_form d p b s pr ca cn =
     \<lparr>f_date = d, f_producedEggs = Parsed p, f_breakages = Parsed b, f_soldEggs = Parsed s,
      f_pricePerEgg = Parsed pr, f_creditAmount = Parsed ca, f_creditName = cn\<rparr>"

text \<open>A table of an older schema: no \<open>sold_eggs\<close>, \<open>credit_amount\<close> or \<open>credit_name\<close>
  column, with (\<open>legacy_credits\<close>) or without (\<open>legacy_plain\<close>) the old \<open>credits\<close> column.\<close>

definition legacy_row :: row where
  "legacy_row = \<lparr>row_id = 1, date = ''2023-06-01'', produced_eggs = Some 10, breakages = Some 1,
                 sold_eggs = None, price_per_egg = Some 2, credit_amount = None,
                 credit_name = None, created_at = 50, credits = Some 5\<rparr>"

definition legacy_credits :: table where
  "legacy_credits =
     \<lparr>columns = [''id'', ''date'', ''produced_eggs'', ''breakages'', ''price_per_egg'',
                 ''credits'', ''created_at''],
      rows = [legacy_row], seq = 1\<rparr>"

definition legacy_plain :: table where
  "legacy_plain =
     \<lparr>columns = [''id'', ''date'', ''produced_eggs'', ''breakages'', ''price_per_egg'',
                 ''created_at''],
      rows = [legacy_row\<lparr>credits := None\<rparr>], seq = 1\<rparr>"


definition whole_number :: "real \<Rightarrow> string" where
  "whole_number x = decimal (nat \<lfloor>x\<rfloor>)"



definition sum_in_range :: "int option list \<Rightarrow> bool" where
  "sum_in_range cells = list_all in_int64 (running_totals 0 (present cells))"





section \<open>Auxiliary facts\<close>

lemma full_has_insert: "has_columns full_columns t \<Longrightarrow> has_columns insert_columns t"
  by (auto simp: has_columns_def full_columns_def insert_columns_def)

lemma full_has_date: "has_columns full_columns t \<Longrightarrow> has_columns [''date''] t"
  by (auto simp: has_columns_def full_columns_def)

lemma full_has_id: "has_columns full_columns t \<Longrightarrow> has_columns [''id''] t"
  by (auto simp: has_columns_def full_columns_def)

lemma full_has_credit:
  "has_columns full_columns t \<Longrightarrow> has_columns [''credit_amount'', ''credit_name'', ''date''] t"
  by (auto simp: has_columns_def full_columns_def)


lemma find_of_filter_single: "filter P xs = [x] \<Longrightarrow> find P xs = Some x"
  by (induction xs) (auto split: if_splits)

lemma find_None_filter: "filter P xs = [] \<Longrightarrow> find P xs = None"
  by (induction xs) (auto split: if_splits)

lemma fold_max_ge_init: "(a::int) \<le> fold max xs a"
  by (induction xs arbitrary: a) (auto intro: order_trans [OF max.cobounded2])

lemma fold_max_ge_elem: "x \<in> set xs \<Longrightarrow> (x::int) \<le> fold max xs a"
proof (induction xs arbitrary: a)
  case Nil
  then show ?case by simp
next
  case (Cons y ys)
  show ?case
  proof (cases "x = y")
    case True
    have "y \<le> max y a" by simp
    also have "\<dots> \<le> fold max ys (max y a)" by (rule fold_max_ge_init)
    finally show ?thesis using True by simp
  next
    case False
    with Cons.prems have "x \<in> set ys" by simp
    then show ?thesis using Cons.IH by simp
  qed
qed

lemma next_id_fresh: "r \<in> set (rows t) \<Longrightarrow> row_id r < next_id t"
  using fold_max_ge_elem [of "row_id r" "map row_id (rows t)" "seq t"]
  by (simp add: next_id_def)

lemma addCreditOnly_absent:
  assumes "has_columns full_columns t"
    and "f_date f \<notin> set (map date (rows t))"
    and "f_creditAmount f = Parsed a" and "0 < a" and "f_creditName f \<noteq> []"
  shows "addCreditOnly fadd now f t =
           Inr (t\<lparr>rows := rows t @ [new_row (next_id t) now (f_date f) (Some 0) (Some 0) (Some 0)
                                        (Some 0) (Some a) (Some (f_creditName f))],
                   seq := next_id t\<rparr>, 1)"
proof -
  have "filter (\<lambda>r. date r = f_date f) (rows t) = []"
    using assms(2) by (force simp: filter_empty_conv)
  then have "find (\<lambda>r. date r = f_date f) (rows t) = None"
    by (rule find_None_filter)
  then show ?thesis
    using assms
    by (simp add: addCreditOnly_def js_le0_def select_by_date_def full_has_date insert_row_def
        full_has_insert)
qed

lemma addCreditOnly_present:
  assumes "has_columns full_columns t"
    and "find (\<lambda>r. date r = f_date f) (rows t) = Some r0"
    and "f_creditAmount f = Parsed b" and "0 < b" and "f_creditName f \<noteq> []"
  shows "addCreditOnly fadd now f t =
           Inr (t\<lparr>rows := map (\<lambda>r. if date r = f_date f
                              then r\<lparr>credit_amount := Some (fadd (or0 (credit_amount r0)) b),
                                     credit_name := Some (newCreditName (credit_name r0) (f_creditName f))\<rparr>
                              else r) (rows t)\<rparr>,
                length (filter (\<lambda>r. date r = f_date f) (rows t)))"
  using assms
  by (simp add: addCreditOnly_def js_le0_def select_by_date_def full_has_date update_credit_def
      full_has_credit newCreditAmount_def)

lemma filter_key_absent: "k \<notin> f ` set xs \<Longrightarrow> filter (\<lambda>x. f x = k) xs = []"
  by (induction xs) auto

lemma filter_key_absent_neq: "k \<notin> f ` set xs \<Longrightarrow> filter (\<lambda>x. f x \<noteq> k) xs = xs"
  by (induction xs) auto

lemma length_filter_key_unique:
  "distinct (map f xs) \<Longrightarrow> r \<in> set xs \<Longrightarrow> length (filter (\<lambda>x. f x = f r) xs) = 1"
proof (induction xs)
  case Nil
  then show ?case by simp
next
  case (Cons y ys)
  show ?case
  proof (cases "f y = f r")
    case True
    with Cons.prems have "f r \<notin> f ` set ys" by simp
    then have "filter (\<lambda>x. f x = f r) ys = []"
      by (rule filter_key_absent)
    with True show ?thesis by simp
  next
    case False
    with Cons.prems have "r \<in> set ys" "distinct (map f ys)" by auto
    with Cons.IH False show ?thesis by simp
  qed
qed

lemma filter_key_neq_unique:
  assumes "distinct (map f xs)" and "r \<in> set xs"
  shows "filter (\<lambda>x. f x \<noteq> f r) xs = filter (\<lambda>x. x \<noteq> r) xs"
proof (rule filter_cong)
  fix x assume "x \<in> set xs"
  with assms have "f x = f r \<Longrightarrow> x = r"
    by (auto simp: distinct_map dest: inj_onD)
  then show "(f x \<noteq> f r) = (x \<noteq> r)" by auto
qed simp

lemma two_days_columns: "has_columns full_columns two_days"
  by (simp add: has_columns_def two_days_def)

section \<open>Deleting a record\<close>

text \<open>
  C9. \<open>deleteRecord\<close> on an id the table does not hold succeeds, reports zero rows affected
  and leaves the table exactly as it was. On an id that a row \<open>r\<close> holds (ids being
  distinct, as the primary key makes them) it reports one row affected and the table keeps
  every row but \<open>r\<close>, unchanged and in place.
\<close>

theorem deleteRecord_by_id:
  assumes "has_columns full_columns t"
  shows "(i \<notin> set (map row_id (rows t)) \<longrightarrow> deleteRecord i t = Inr (t, 0)) \<and>
         (\<forall>r. r \<in> set (rows t) \<and> row_id r = i \<and> distinct (map row_id (rows t)) \<longrightarrow>
            (\<exists>t'. deleteRecord i t = Inr (t', 1) \<and>
                  columns t' = columns t \<and> seq t' = seq t \<and>
                  rows t' = filter (\<lambda>x. x \<noteq> r) (rows t) \<and>
                  set (rows t') = set (rows t) - {r}))"
proof (intro conjI impI allI)
  assume absent: "i \<notin> set (map row_id (rows t))"
  then have keep: "filter (\<lambda>r. row_id r \<noteq> i) (rows t) = rows t"
    by (intro filter_key_absent_neq) simp
  from absent have none: "filter (\<lambda>r. row_id r = i) (rows t) = []"
    by (intro filter_key_absent) simp
  show "deleteRecord i t = Inr (t, 0)"
    using assms by (simp add: deleteRecord_def full_has_id keep none)
next
  fix r
  assume h: "r \<in> set (rows t) \<and> row_id r = i \<and> distinct (map row_id (rows t))"
  then have i: "i = row_id r" by simp
  have f1: "filter (\<lambda>x. row_id x \<noteq> i) (rows t) = filter (\<lambda>x. x \<noteq> r) (rows t)"
    unfolding i using h by (intro filter_key_neq_unique) simp_all
  have f2: "length (filter (\<lambda>x. row_id x = i) (rows t)) = 1"
    unfolding i using h by (intro length_filter_key_unique) simp_all
  show "\<exists>t'. deleteRecord i t = Inr (t', 1) \<and> columns t' = columns t \<and> seq t' = seq t \<and>
          rows t' = filter (\<lambda>x. x \<noteq> r) (rows t) \<and> set (rows t') = set (rows t) - {r}"
    using assms by (auto simp: deleteRecord_def full_has_id f1 f2)
qed

theorem deleteRecord_by_id_witness:
  "deleteRecord 7 two_days = Inr (two_days, 0) \<and>
   deleteRecord 1 two_days = Inr (two_days\<lparr>rows := [row_d2]\<rparr>, 1)"
proof -
  have d: "row_d1 \<in> set (rows two_days) \<and> row_id row_d1 = 1 \<and>
           distinct (map row_id (rows two_days))"
    by (simp add: two_days_def row_d1_def row_d2_def)
  have a: "(7::int) \<notin> set (map row_id (rows two_days))"
    by (simp add: two_days_def row_d1_def row_d2_def)
  from deleteRecord_by_id [OF two_days_columns, of 7] a
  have one: "deleteRecord 7 two_days = Inr (two_days, 0)" by simp
  from deleteRecord_by_id [OF two_days_columns, of 1] d
  obtain t' where t': "deleteRecord 1 two_days = Inr (t', 1)" "columns t' = columns two_days"
    "seq t' = seq two_days" "rows t' = filter (\<lambda>x. x \<noteq> row_d1) (rows two_days)"
    by blast
  have "t' = two_days\<lparr>rows := [row_d2]\<rparr>"
    using t'(2-4) by (simp add: two_days_def row_d1_def row_d2_def)
  with t'(1) one show ?thesis by simp
qed

section \<open>Credit-only additions\<close>

lemma filter_update_other:
  "filter (\<lambda>r. date r \<noteq> d) (map (\<lambda>r. if date r = d then g r else r) xs) =
   filter (\<lambda>r. date r \<noteq> d) xs"
  if "\<And>r. date (g r) = date r"
  using that by (induction xs) auto

lemma filter_update_same:
  "filter (\<lambda>r. date r = d) (map (\<lambda>r. if date r = d then g r else r) xs) =
   map g (filter (\<lambda>r. date r = d) xs)"
  if "\<And>r. date (g r) = date r"
  using that by (induction xs) auto

lemma addCreditOnly_existing:
  assumes "has_columns full_columns t"
    and "filter (\<lambda>r. date r = f_date f) (rows t) = [r0]"
    and "f_creditAmount f = Parsed b" and "0 < b" and "f_creditName f \<noteq> []"
  shows "\<exists>t'. addCreditOnly fadd now f t = Inr (t', 1) \<and>
           columns t' = columns t \<and> seq t' = seq t \<and>
           filter (\<lambda>r. date r = f_date f) (rows t') =
             [r0\<lparr>credit_amount := Some (fadd (or0 (credit_amount r0)) b),
                 credit_name := Some (newCreditName (credit_name r0) (f_creditName f))\<rparr>] \<and>
           filter (\<lambda>r. date r \<noteq> f_date f) (rows t') =
             filter (\<lambda>r. date r \<noteq> f_date f) (rows t)"
proof -
  let ?g = "\<lambda>r. r\<lparr>credit_amount := Some (fadd (or0 (credit_amount r0)) b),
                    credit_name := Some (newCreditName (credit_name r0) (f_creditName f))\<rparr>"
  have found: "find (\<lambda>r. date r = f_date f) (rows t) = Some r0"
    using assms(2) by (rule find_of_filter_single)
  have run: "addCreditOnly fadd now f t =
      Inr (t\<lparr>rows := map (\<lambda>r. if date r = f_date f then ?g r else r) (rows t)\<rparr>,
           length (filter (\<lambda>r. date r = f_date f) (rows t)))"
    using assms(1) found assms(3-5) by (rule addCreditOnly_present)
  have same: "filter (\<lambda>r. date r = f_date f)
                (map (\<lambda>r. if date r = f_date f then ?g r else r) (rows t)) = [?g r0]"
    by (subst filter_update_same) (simp_all add: assms(2))
  have other: "filter (\<lambda>r. date r \<noteq> f_date f)
                (map (\<lambda>r. if date r = f_date f then ?g r else r) (rows t)) =
               filter (\<lambda>r. date r \<noteq> f_date f) (rows t)"
    by (rule filter_update_other) simp
  show ?thesis
    unfolding run using same other by (simp add: assms(2))
qed

text \<open>
  C1. With \<open>b > 0\<close> and a non-empty name \<open>Y\<close> in the form: when the table holds exactly
  one record \<open>r0\<close> for the date, holding credit amount \<open>a\<close> and credit name \<open>X\<close>,
  \<open>addCreditOnly\<close> changes one row, and afterwards the one record for the date is \<open>r0\<close>
  with credit amount \<open>a + b\<close> and credit name \<open>X, Y\<close> (just \<open>Y\<close> when \<open>X\<close> is
  empty), every other field as it was; the records of other dates are unchanged. And two
  additions on a date the table does not hold, of \<open>a\<close> for \<open>X\<close> and then \<open>b\<close> for
  \<open>Y\<close>, leave a single record for it with credit amount \<open>a + b\<close> and credit name
  \<open>X, Y\<close>. Here \<open>a + b\<close> is the sum as the program computes it, \<open>fadd a b\<close>: the
  floating-point \<open>+\<close> of the language on the two numbers, whatever its rounding.
\<close>

theorem addCreditOnly_accumulates:
  assumes "has_columns full_columns t"
    and "f_creditAmount f = Parsed b" and "0 < b"
    and "f_creditName f = Y" and "Y \<noteq> []"
  shows "(\<forall>r0 a X.
            filter (\<lambda>r. date r = f_date f) (rows t) = [r0] \<and>
            credit_amount r0 = Some a \<and> credit_name r0 = Some X \<longrightarrow>
            (\<exists>t'. addCreditOnly fadd now f t = Inr (t', 1) \<and>
                  filter (\<lambda>r. date r = f_date f) (rows t') =
                    [r0\<lparr>credit_amount := Some (fadd a b),
                        credit_name := Some (if X = [] then Y else X @ '', '' @ Y)\<rparr>] \<and>
                  filter (\<lambda>r. date r \<noteq> f_date f) (rows t') =
                    filter (\<lambda>r. date r \<noteq> f_date f) (rows t))) \<and>
         (\<forall>(g::form) a X.
            f_date f \<notin> set (map date (rows t)) \<and> f_date g = f_date f \<and>
            f_creditAmount g = Parsed a \<and> 0 < a \<and> f_creditName g = X \<and> X \<noteq> [] \<longrightarrow>
            (\<exists>t1 t2 r. addCreditOnly fadd now g t = Inr (t1, 1) \<and>
                  addCreditOnly fadd later f t1 = Inr (t2, 1) \<and>
                  filter (\<lambda>r. date r = f_date f) (rows t2) = [r] \<and>
                  credit_amount r = Some (fadd a b) \<and> credit_name r = Some (X @ '', '' @ Y)))"
proof (intro conjI allI impI)
  fix r0 a X
  assume h: "filter (\<lambda>r. date r = f_date f) (rows t) = [r0] \<and>
             credit_amount r0 = Some a \<and> credit_name r0 = Some X"
  have "Y \<noteq> []" by fact
  then have ne: "f_creditName f \<noteq> []" by (simp add: assms(4))
  from h have single: "filter (\<lambda>r. date r = f_date f) (rows t) = [r0]" by simp
  from addCreditOnly_existing [OF assms(1) single assms(2,3) ne, of fadd now]
  show "\<exists>t'. addCreditOnly fadd now f t = Inr (t', 1) \<and>
          filter (\<lambda>r. date r = f_date f) (rows t') =
            [r0\<lparr>credit_amount := Some (fadd a b),
                credit_name := Some (if X = [] then Y else X @ '', '' @ Y)\<rparr>] \<and>
          filter (\<lambda>r. date r \<noteq> f_date f) (rows t') =
            filter (\<lambda>r. date r \<noteq> f_date f) (rows t)"
    using h by (auto simp: or0_def newCreditName_def assms(4))
next
  fix g :: form and a X
  assume h: "f_date f \<notin> set (map date (rows t)) \<and> f_date g = f_date f \<and>
             f_creditAmount g = Parsed a \<and> 0 < a \<and> f_creditName g = X \<and> X \<noteq> []"
  let ?new = "new_row (next_id t) now (f_date g) (Some 0) (Some 0) (Some 0) (Some 0)
                (Some a) (Some (f_creditName g))"
  let ?t1 = "t\<lparr>rows := rows t @ [?new], seq := next_id t\<rparr>"
  have first: "addCreditOnly fadd now g t = Inr (?t1, 1)"
    using assms(1) h by (intro addCreditOnly_absent) simp_all
  have cols1: "has_columns full_columns ?t1"
    using assms(1) by (simp add: has_columns_def)
  have "filter (\<lambda>r. date r = f_date f) (rows t) = []"
    using h by (intro filter_key_absent) simp
  then have single: "filter (\<lambda>r. date r = f_date f) (rows ?t1) = [?new]"
    using h by (simp add: new_row_def)
  have ne: "f_creditName f \<noteq> []" using assms(4,5) by simp
  from addCreditOnly_existing [OF cols1 single assms(2,3) ne, of fadd later]
  obtain t2 where t2: "addCreditOnly fadd later f ?t1 = Inr (t2, 1)"
    "filter (\<lambda>r. date r = f_date f) (rows t2) =
       [?new\<lparr>credit_amount := Some (fadd (or0 (credit_amount ?new)) b),
             credit_name := Some (newCreditName (credit_name ?new) (f_creditName f))\<rparr>]"
    by blast
  show "\<exists>t1 t2 r. addCreditOnly fadd now g t = Inr (t1, 1) \<and>
          addCreditOnly fadd later f t1 = Inr (t2, 1) \<and>
          filter (\<lambda>r. date r = f_date f) (rows t2) = [r] \<and>
          credit_amount r = Some (fadd a b) \<and> credit_name r = Some (X @ '', '' @ Y)"
    using first t2 h by (auto simp: new_row_def or0_def newCreditName_def assms(4))
qed


theorem addCreditOnly_accumulates_witness:
  "(\<exists>t'. addCreditOnly (+) 300 (credit_form ''2024-01-01'' 4 ''Bea'') two_days = Inr (t', 1) \<and>
         filter (\<lambda>r. date r = ''2024-01-01'') (rows t') =
           [row_d1\<lparr>credit_amount := Some 7, credit_name := Some ''Asha, Bea''\<rparr>] \<and>
         filter (\<lambda>r. date r \<noteq> ''2024-01-01'') (rows t') = [row_d2]) \<and>
   (\<exists>t1 t2 r. addCreditOnly (+) 300 (credit_form ''2024-01-03'' 3 ''Asha'') two_days = Inr (t1, 1) \<and>
         addCreditOnly (+) 400 (credit_form ''2024-01-03'' 4 ''Bea'') t1 = Inr (t2, 1) \<and>
         filter (\<lambda>r. date r = ''2024-01-03'') (rows t2) = [r] \<and>
         credit_amount r = Some 7 \<and> credit_name r = Some ''Asha, Bea'')"
proof
  let ?f = "credit_form ''2024-01-01'' 4 ''Bea''"
  have pre: "f_creditAmount ?f = Parsed 4" "(0::real) < 4" "f_creditName ?f = ''Bea''"
    "''Bea'' \<noteq> []"
    by (simp_all add: credit_form_def)
  have here: "filter (\<lambda>r. date r = f_date ?f) (rows two_days) = [row_d1] \<and>
              credit_amount row_d1 = Some 3 \<and> credit_name row_d1 = Some ''Asha''"
    by (simp add: credit_form_def two_days_def row_d1_def row_d2_def)
  have "\<forall>r0 a X.
            filter (\<lambda>r. date r = f_date ?f) (rows two_days) = [r0] \<and>
            credit_amount r0 = Some a \<and> credit_name r0 = Some X \<longrightarrow>
            (\<exists>t'. addCreditOnly (+) 300 ?f two_days = Inr (t', 1) \<and>
                  filter (\<lambda>r. date r = f_date ?f) (rows t') =
                    [r0\<lparr>credit_amount := Some (a + 4),
                        credit_name := Some (if X = [] then ''Bea'' else X @ '', '' @ ''Bea'')\<rparr>] \<and>
                  filter (\<lambda>r. date r \<noteq> f_date ?f) (rows t') =
                    filter (\<lambda>r. date r \<noteq> f_date ?f) (rows two_days))"
    using addCreditOnly_accumulates [OF two_days_columns pre, where now = 300 and fadd = "(+)"]
    by (rule conjunct1)
  from this [rule_format, OF here]
  show "\<exists>t'. addCreditOnly (+) 300 ?f two_days = Inr (t', 1) \<and>
         filter (\<lambda>r. date r = ''2024-01-01'') (rows t') =
           [row_d1\<lparr>credit_amount := Some 7, credit_name := Some ''Asha, Bea''\<rparr>] \<and>
         filter (\<lambda>r. date r \<noteq> ''2024-01-01'') (rows t') = [row_d2]"
    by (simp add: credit_form_def two_days_def row_d1_def row_d2_def)
next
  let ?f = "credit_form ''2024-01-03'' 4 ''Bea''"
  let ?g = "credit_form ''2024-01-03'' 3 ''Asha''"
  have pre: "f_creditAmount ?f = Parsed 4" "(0::real) < 4" "f_creditName ?f = ''Bea''"
    "''Bea'' \<noteq> []"
    by (simp_all add: credit_form_def)
  have fresh: "f_date ?f \<notin> set (map date (rows two_days)) \<and> f_date ?g = f_date ?f \<and>
            f_creditAmount ?g = Parsed 3 \<and> (0::real) < 3 \<and> f_creditName ?g = ''Asha'' \<and>
            ''Asha'' \<noteq> []"
    by (simp add: credit_form_def two_days_def row_d1_def row_d2_def)
  have "\<forall>(g::form) a X.
            f_date ?f \<notin> set (map date (rows two_days)) \<and> f_date g = f_date ?f \<and>
            f_creditAmount g = Parsed a \<and> 0 < a \<and> f_creditName g = X \<and> X \<noteq> [] \<longrightarrow>
            (\<exists>t1 t2 r. addCreditOnly (+) 300 g two_days = Inr (t1, 1) \<and>
                  addCreditOnly (+) 400 ?f t1 = Inr (t2, 1) \<and>
                  filter (\<lambda>r. date r = f_date ?f) (rows t2) = [r] \<and>
                  credit_amount r = Some (a + 4) \<and> credit_name r = Some (X @ '', '' @ ''Bea''))"
    using addCreditOnly_accumulates [OF two_days_columns pre, where now = 300 and later = 400 and fadd = "(+)"]
    by (rule conjunct2)
  from this [rule_format, OF fresh]
  show "\<exists>t1 t2 r. addCreditOnly (+) 300 ?g two_days = Inr (t1, 1) \<and>
         addCreditOnly (+) 400 ?f t1 = Inr (t2, 1) \<and>
         filter (\<lambda>r. date r = ''2024-01-03'') (rows t2) = [r] \<and>
         credit_amount r = Some 7 \<and> credit_name r = Some ''Asha, Bea''"
    by (simp add: credit_form_def)
qed

section \<open>Saving a daily record\<close>

lemma saveDailyRecord_runs:
  assumes "has_columns full_columns t"
    and "f_producedEggs f = Parsed p" and "f_pricePerEgg f = Parsed pr"
    and "or0 (parse (f_soldEggs f)) \<le> p - or0 (parse (f_breakages f))"
  shows "saveDailyRecord now f t =
           Inr (t\<lparr>rows := filter (\<lambda>r. date r \<noteq> f_date f) (rows t) @
                     [new_row (next_id t) now (f_date f) (Some p)
                        (Some (or0 (parse (f_breakages f)))) (Some (or0 (parse (f_soldEggs f))))
                        (Some pr) (Some (or0 (parse (f_creditAmount f))))
                        (Some (f_creditName f))],
                   seq := next_id t\<rparr>, 1)"
  using assms
  by (simp add: saveDailyRecord_def js_gt_def insert_or_replace_def full_has_insert Let_def)

text \<open>
  C2, as claimed, fails in its last clause: a repeated identical save is not idempotent on
  the stored record. On the example table two saves of the same form, even at the same
  clock reading, leave different records for the date: the second is stored under id 4
  where the first was stored under id 3.
\<close>

theorem saveDailyRecord_idempotent_counterexample:
  "saveDailyRecord 300 (full_form ''2024-01-01'' 12 2 6 3 0 []) two_days =
     Inr (\<lparr>columns = full_columns,
           rows = [row_d2,
                   \<lparr>row_id = 3, date = ''2024-01-01'', produced_eggs = Some 12,
                    breakages = Some 2, sold_eggs = Some 6, price_per_egg = Some 3,
                    credit_amount = Some 0, credit_name = Some [], created_at = 300,
                    credits = None\<rparr>],
           seq = 3\<rparr>, 1) \<and>
   saveDailyRecord 300 (full_form ''2024-01-01'' 12 2 6 3 0 [])
     \<lparr>columns = full_columns,
      rows = [row_d2,
              \<lparr>row_id = 3, date = ''2024-01-01'', produced_eggs = Some 12,
               breakages = Some 2, sold_eggs = Some 6, price_per_egg = Some 3,
               credit_amount = Some 0, credit_name = Some [], created_at = 300,
               credits = None\<rparr>],
      seq = 3\<rparr> =
     Inr (\<lparr>columns = full_columns,
           rows = [row_d2,
                   \<lparr>row_id = 4, date = ''2024-01-01'', produced_eggs = Some 12,
                    breakages = Some 2, sold_eggs = Some 6, price_per_egg = Some 3,
                    credit_amount = Some 0, credit_name = Some [], created_at = 300,
                    credits = None\<rparr>],
           seq = 4\<rparr>, 1)"
  by (simp add: saveDailyRecord_def full_form_def or0_def js_gt_def insert_or_replace_def
      has_columns_def insert_columns_def full_columns_def two_days_def row_d1_def row_d2_def
      next_id_def new_row_def)

text \<open>
  C2, amended. When produced eggs and price are present (they parse to \<open>p\<close> and \<open>pr\<close>) and
  the sold eggs do not exceed the produced eggs less the breakages, \<open>saveDailyRecord\<close>
  writes one row, and afterwards exactly one record exists for the date, whose date,
  produced, breakage, sold, price and credit columns are exactly the values given (a blank
  optional field being the value 0), whatever the table held for that date before; the
  records of other dates are unchanged. Saving the same form again is idempotent on these
  columns only: the table holds the same values in them, record for record, but the record
  of the date is inserted anew, under a greater id and with the time of the second save as
  its creation time.
\<close>

theorem saveDailyRecord_replaces:
  assumes "has_columns full_columns t"
    and "f_producedEggs f = Parsed p" and "f_pricePerEgg f = Parsed pr"
    and "or0 (parse (f_soldEggs f)) \<le> p - or0 (parse (f_breakages f))"
  shows "\<exists>t' r. saveDailyRecord now f t = Inr (t', 1) \<and>
           filter (\<lambda>x. date x = f_date f) (rows t') = [r] \<and>
           stored_values r =
             (f_date f, Some p, Some (or0 (parse (f_breakages f))),
              Some (or0 (parse (f_soldEggs f))), Some pr,
              Some (or0 (parse (f_creditAmount f))), Some (f_creditName f)) \<and>
           filter (\<lambda>x. date x \<noteq> f_date f) (rows t') =
             filter (\<lambda>x. date x \<noteq> f_date f) (rows t) \<and>
           (\<exists>t'' r'. saveDailyRecord later f t' = Inr (t'', 1) \<and>
                  map stored_values (rows t'') = map stored_values (rows t') \<and>
                  filter (\<lambda>x. date x = f_date f) (rows t'') = [r'] \<and>
                  row_id r < row_id r' \<and> created_at r' = later)"
proof -
  let ?vals = "\<lambda>i n. new_row i n (f_date f) (Some p)
                        (Some (or0 (parse (f_breakages f)))) (Some (or0 (parse (f_soldEggs f))))
                        (Some pr) (Some (or0 (parse (f_creditAmount f))))
                        (Some (f_creditName f))"
  let ?t' = "t\<lparr>rows := filter (\<lambda>r. date r \<noteq> f_date f) (rows t) @ [?vals (next_id t) now],
               seq := next_id t\<rparr>"
  let ?t'' = "?t'\<lparr>rows := filter (\<lambda>r. date r \<noteq> f_date f) (rows ?t') @ [?vals (next_id ?t') later],
               seq := next_id ?t'\<rparr>"
  have first: "saveDailyRecord now f t = Inr (?t', 1)"
    using assms by (rule saveDailyRecord_runs)
  have cols: "has_columns full_columns ?t'"
    using assms(1) by (simp add: has_columns_def)
  have second: "saveDailyRecord later f ?t' = Inr (?t'', 1)"
    using cols assms(2-4) by (rule saveDailyRecord_runs)
  have same: "filter (\<lambda>x. date x = f_date f) (rows ?t') = [?vals (next_id t) now]"
    by (simp add: new_row_def)
  have other: "filter (\<lambda>x. date x \<noteq> f_date f) (rows ?t') =
               filter (\<lambda>x. date x \<noteq> f_date f) (rows t)"
    by (simp add: new_row_def)
  have again: "map stored_values (rows ?t'') = map stored_values (rows ?t')"
    by (simp add: new_row_def stored_values_def)
  have same2: "filter (\<lambda>x. date x = f_date f) (rows ?t'') = [?vals (next_id ?t') later]"
    by (simp add: new_row_def)
  have "?vals (next_id t) now \<in> set (rows ?t')"
    by simp
  then have "row_id (?vals (next_id t) now) < next_id ?t'"
    by (rule next_id_fresh)
  then have newer: "row_id (?vals (next_id t) now) < row_id (?vals (next_id ?t') later)"
    by (simp add: new_row_def)
  have at: "created_at (?vals (next_id ?t') later) = later"
    by (simp add: new_row_def)
  have vals: "stored_values (?vals (next_id t) now) =
             (f_date f, Some p, Some (or0 (parse (f_breakages f))),
              Some (or0 (parse (f_soldEggs f))), Some pr,
              Some (or0 (parse (f_creditAmount f))), Some (f_creditName f))"
    by (simp add: new_row_def stored_values_def)
  show ?thesis
    using first second same other again vals same2 newer at by blast
qed

theorem saveDailyRecord_replaces_witness:
  "or0 (parse (f_soldEggs (full_form ''2024-01-01'' 12 2 6 3 0 []))) \<le>
     12 - or0 (parse (f_breakages (full_form ''2024-01-01'' 12 2 6 3 0 []))) \<and>
   (\<exists>t' r. saveDailyRecord 300 (full_form ''2024-01-01'' 12 2 6 3 0 []) two_days = Inr (t', 1) \<and>
      filter (\<lambda>x. date x = ''2024-01-01'') (rows t') = [r] \<and>
      stored_values r = (''2024-01-01'', Some 12, Some 2, Some 6, Some 3, Some 0, Some []) \<and>
      filter (\<lambda>x. date x \<noteq> ''2024-01-01'') (rows t') = [row_d2] \<and>
      (\<exists>t'' r'. saveDailyRecord 400 (full_form ''2024-01-01'' 12 2 6 3 0 []) t' = Inr (t'', 1) \<and>
         map stored_values (rows t'') = map stored_values (rows t') \<and>
         filter (\<lambda>x. date x = ''2024-01-01'') (rows t'') = [r'] \<and>
         row_id r < row_id r' \<and> created_at r' = 400))"
proof -
  let ?f = "full_form ''2024-01-01'' 12 2 6 3 0 []"
  have pre: "f_producedEggs ?f = Parsed 12" "f_pricePerEgg ?f = Parsed 3"
    "or0 (parse (f_soldEggs ?f)) \<le> 12 - or0 (parse (f_breakages ?f))"
    by (simp_all add: full_form_def or0_def)
  from saveDailyRecord_replaces [OF two_days_columns pre, of 300 400] pre(3)
  show ?thesis
    by (simp add: full_form_def or0_def two_days_def row_d1_def row_d2_def)
qed

section \<open>A credit-only addition on a new date\<close>

text \<open>
  C7. With a positive amount and a non-empty name in the form, \<open>addCreditOnly\<close> on a date
  the table holds no record for inserts exactly one record: the table afterwards is the
  table before followed by the new record, which is the only record for the date, and its
  produced eggs, breakages, sold eggs and price are all zero while its credit amount and
  credit name are the given ones.
\<close>

theorem addCreditOnly_new_date:
  assumes "has_columns full_columns t"
    and "f_date f \<notin> set (map date (rows t))"
    and "f_creditAmount f = Parsed amount" and "0 < amount"
    and "f_creditName f = name" and "name \<noteq> []"
  shows "\<exists>t' r. addCreditOnly fadd now f t = Inr (t', 1) \<and>
           rows t' = rows t @ [r] \<and>
           filter (\<lambda>x. date x = f_date f) (rows t') = [r] \<and>
           date r = f_date f \<and>
           produced_eggs r = Some 0 \<and> breakages r = Some 0 \<and> sold_eggs r = Some 0 \<and>
           price_per_egg r = Some 0 \<and>
           credit_amount r = Some amount \<and> credit_name r = Some name"
proof -
  have none: "filter (\<lambda>x. date x = f_date f) (rows t) = []"
    using assms(2) by (intro filter_key_absent) simp
  have "addCreditOnly fadd now f t =
          Inr (t\<lparr>rows := rows t @ [new_row (next_id t) now (f_date f) (Some 0) (Some 0) (Some 0)
                                       (Some 0) (Some amount) (Some (f_creditName f))],
                  seq := next_id t\<rparr>, 1)"
    using assms(1-4) assms(6) [folded assms(5)] by (rule addCreditOnly_absent)
  then show ?thesis
    using none assms(5) by (simp add: new_row_def)
qed

theorem addCreditOnly_new_date_witness:
  "f_date (credit_form ''2024-01-03'' 4 ''Bea'') \<notin> set (map date (rows two_days)) \<and>
   (\<exists>t' r. addCreditOnly (+) 300 (credit_form ''2024-01-03'' 4 ''Bea'') two_days = Inr (t', 1) \<and>
      rows t' = [row_d1, row_d2, r] \<and>
      filter (\<lambda>x. date x = ''2024-01-03'') (rows t') = [r] \<and>
      date r = ''2024-01-03'' \<and>
      produced_eggs r = Some 0 \<and> breakages r = Some 0 \<and> sold_eggs r = Some 0 \<and>
      price_per_egg r = Some 0 \<and>
      credit_amount r = Some 4 \<and> credit_name r = Some ''Bea'')"
proof -
  let ?f = "credit_form ''2024-01-03'' 4 ''Bea''"
  have fresh: "f_date ?f \<notin> set (map date (rows two_days))"
    by (simp add: credit_form_def two_days_def row_d1_def row_d2_def)
  have pre: "f_creditAmount ?f = Parsed 4" "(0::real) < 4" "f_creditName ?f = ''Bea''"
    "''Bea'' \<noteq> []"
    by (simp_all add: credit_form_def)
  from addCreditOnly_new_date [OF two_days_columns fresh pre, of "(+)" 300] fresh
  show ?thesis
    by (simp add: credit_form_def two_days_def)
qed

section \<open>Identity of a record across writes\<close>

text \<open>
  C3, as claimed, fails: a save for a date that has a record deletes that record and
  inserts a new one. On the example table the record of 2024-01-01 has id 1 and was created
  at 100; after a save at 300 the record of that date has id 3 and is created at 300.
\<close>

theorem saveDailyRecord_keeps_identity_counterexample:
  "map (\<lambda>r. (row_id r, created_at r))
     (filter (\<lambda>r. date r = ''2024-01-01'') (rows two_days)) = [(1, 100)] \<and>
   saveDailyRecord 300 (full_form ''2024-01-01'' 12 2 6 3 0 []) two_days =
     Inr (\<lparr>columns = full_columns,
           rows = [row_d2,
                   \<lparr>row_id = 3, date = ''2024-01-01'', produced_eggs = Some 12,
                    breakages = Some 2, sold_eggs = Some 6, price_per_egg = Some 3,
                    credit_amount = Some 0, credit_name = Some [], created_at = 300,
                    credits = None\<rparr>],
           seq = 3\<rparr>, 1)"
  by (simp add: saveDailyRecord_def full_form_def or0_def js_gt_def insert_or_replace_def
      has_columns_def insert_columns_def full_columns_def two_days_def row_d1_def row_d2_def
      next_id_def new_row_def)

text \<open>
  C3, amended. A save for a date that has a record \<open>r0\<close> replaces it by a newly inserted
  record: the one record of the date afterwards has the next id of the store, which is
  greater than the id of \<open>r0\<close> and is the id of no record in the table before, and its
  creation time is the time of the save. The other write for a date, a credit-only
  addition, keeps the id and the creation time of the record it updates.
\<close>

theorem saveDailyRecord_assigns_new_identity:
  assumes "has_columns full_columns t"
    and "r0 \<in> set (rows t)" and "date r0 = f_date f"
  shows "(f_producedEggs f = Parsed p \<and> f_pricePerEgg f = Parsed pr \<and>
          or0 (parse (f_soldEggs f)) \<le> p - or0 (parse (f_breakages f)) \<longrightarrow>
          (\<exists>t' r. saveDailyRecord now f t = Inr (t', 1) \<and>
             filter (\<lambda>x. date x = f_date f) (rows t') = [r] \<and>
             row_id r = next_id t \<and> row_id r0 < row_id r \<and>
             row_id r \<notin> set (map row_id (rows t)) \<and>
             created_at r = now)) \<and>
         (filter (\<lambda>x. date x = f_date f) (rows t) = [r0] \<and>
          f_creditAmount f = Parsed b \<and> 0 < b \<and> f_creditName f \<noteq> [] \<longrightarrow>
          (\<exists>t' r. addCreditOnly fadd now f t = Inr (t', 1) \<and>
             filter (\<lambda>x. date x = f_date f) (rows t') = [r] \<and>
             row_id r = row_id r0 \<and> created_at r = created_at r0))"
proof (intro conjI impI)
  assume h: "f_producedEggs f = Parsed p \<and> f_pricePerEgg f = Parsed pr \<and>
          or0 (parse (f_soldEggs f)) \<le> p - or0 (parse (f_breakages f))"
  let ?r = "new_row (next_id t) now (f_date f) (Some p)
              (Some (or0 (parse (f_breakages f)))) (Some (or0 (parse (f_soldEggs f))))
              (Some pr) (Some (or0 (parse (f_creditAmount f)))) (Some (f_creditName f))"
  have run: "saveDailyRecord now f t =
      Inr (t\<lparr>rows := filter (\<lambda>r. date r \<noteq> f_date f) (rows t) @ [?r], seq := next_id t\<rparr>, 1)"
    using assms(1) h by (intro saveDailyRecord_runs) simp_all
  have older: "row_id r0 < next_id t"
    using assms(2) by (rule next_id_fresh)
  have fresh: "next_id t \<notin> set (map row_id (rows t))"
    using next_id_fresh [of _ t] by fastforce
  show "\<exists>t' r. saveDailyRecord now f t = Inr (t', 1) \<and>
          filter (\<lambda>x. date x = f_date f) (rows t') = [r] \<and>
          row_id r = next_id t \<and> row_id r0 < row_id r \<and>
          row_id r \<notin> set (map row_id (rows t)) \<and> created_at r = now"
    unfolding run using older fresh by (simp add: new_row_def)
next
  assume h: "filter (\<lambda>x. date x = f_date f) (rows t) = [r0] \<and>
          f_creditAmount f = Parsed b \<and> 0 < b \<and> f_creditName f \<noteq> []"
  then have single: "filter (\<lambda>x. date x = f_date f) (rows t) = [r0]"
    and b: "f_creditAmount f = Parsed b" "0 < b" and ne: "f_creditName f \<noteq> []"
    by simp_all
  from addCreditOnly_existing [OF assms(1) single b ne, of fadd now]
  show "\<exists>t' r. addCreditOnly fadd now f t = Inr (t', 1) \<and>
          filter (\<lambda>x. date x = f_date f) (rows t') = [r] \<and>
          row_id r = row_id r0 \<and> created_at r = created_at r0"
    by auto
qed

theorem saveDailyRecord_assigns_new_identity_witness:
  "row_d1 \<in> set (rows two_days) \<and>
   (\<exists>t' r. saveDailyRecord 300 (full_form ''2024-01-01'' 12 2 6 3 4 ''Bea'') two_days = Inr (t', 1) \<and>
      filter (\<lambda>x. date x = ''2024-01-01'') (rows t') = [r] \<and>
      row_id r = 3 \<and> row_id row_d1 < row_id r \<and>
      row_id r \<notin> set (map row_id (rows two_days)) \<and> created_at r = 300) \<and>
   (\<exists>t' r. addCreditOnly (+) 300 (full_form ''2024-01-01'' 12 2 6 3 4 ''Bea'') two_days = Inr (t', 1) \<and>
      filter (\<lambda>x. date x = ''2024-01-01'') (rows t') = [r] \<and>
      row_id r = 1 \<and> created_at r = 100)"
proof -
  let ?f = "full_form ''2024-01-01'' 12 2 6 3 4 ''Bea''"
  have pre: "row_d1 \<in> set (rows two_days)" "date row_d1 = f_date ?f"
    by (simp_all add: full_form_def two_days_def row_d1_def)
  have save: "f_producedEggs ?f = Parsed 12 \<and> f_pricePerEgg ?f = Parsed 3 \<and>
          or0 (parse (f_soldEggs ?f)) \<le> 12 - or0 (parse (f_breakages ?f))"
    by (simp add: full_form_def or0_def)
  have credit: "filter (\<lambda>x. date x = f_date ?f) (rows two_days) = [row_d1] \<and>
          f_creditAmount ?f = Parsed 4 \<and> (0::real) < 4 \<and> f_creditName ?f \<noteq> []"
    by (simp add: full_form_def two_days_def row_d1_def row_d2_def)
  note T = saveDailyRecord_assigns_new_identity [OF two_days_columns pre,
      where p = 12 and pr = 3 and b = 4 and now = 300]
  have nid: "next_id two_days = 3"
    by (simp add: next_id_def two_days_def row_d1_def row_d2_def)
  from T [THEN conjunct1, rule_format, OF save] T [THEN conjunct2, rule_format, OF credit] pre(1)
  show ?thesis
    by (simp add: full_form_def nid row_d1_def)
qed

section \<open>Schema migration\<close>

text \<open>
  C6. On an existing table without the columns \<open>sold_eggs\<close>, \<open>credit_amount\<close> and
  \<open>credit_name\<close> and without the legacy column \<open>credits\<close>, \<open>initializeDatabase\<close> logs no
  error and adds the three columns; every existing row reads the defaults 0, 0 and the empty
  string in them and keeps its other columns. Run again on the result, it logs no error and
  changes nothing.
\<close>

theorem initializeDatabase_adds_columns:
  assumes "''sold_eggs'' \<notin> set (columns t)"
    and "''credit_amount'' \<notin> set (columns t)"
    and "''credit_name'' \<notin> set (columns t)"
    and "''credits'' \<notin> set (columns t)"
  shows "\<exists>t'. initializeDatabase (Some t) = (Some t', None) \<and>
           columns t' = columns t @ [''sold_eggs'', ''credit_amount'', ''credit_name''] \<and>
           rows t' = map (\<lambda>r. r\<lparr>sold_eggs := Some 0, credit_amount := Some 0,
                                  credit_name := Some []\<rparr>) (rows t) \<and>
           map (\<lambda>r. (row_id r, date r, produced_eggs r, breakages r, price_per_egg r,
                      created_at r, credits r)) (rows t') =
           map (\<lambda>r. (row_id r, date r, produced_eggs r, breakages r, price_per_egg r,
                      created_at r, credits r)) (rows t) \<and>
           seq t' = seq t \<and>
           initializeDatabase (Some t') = (Some t', None)"
proof -
  let ?t' = "t\<lparr>columns := columns t @ [''sold_eggs'', ''credit_amount'', ''credit_name''],
               rows := map (\<lambda>r. r\<lparr>sold_eggs := Some 0, credit_amount := Some 0,
                                      credit_name := Some []\<rparr>) (rows t)\<rparr>"
  have m: "migrations (columns t) = [AddSoldEggs, AddCreditAmount, AddCreditName]"
    using assms by (simp add: migrations_def)
  have "run_all [AddSoldEggs, AddCreditAmount, AddCreditName] t = (?t', [])"
    using assms by (simp add: add_column_def comp_def)
  then have first: "initializeDatabase (Some t) = (Some ?t', None)"
    by (simp add: initializeDatabase_def checkAndMigrateSchema_def m)
  have m': "migrations (columns t @ [''sold_eggs'', ''credit_amount'', ''credit_name'']) = []"
    using assms by (simp add: migrations_def)
  have second: "initializeDatabase (Some ?t') = (Some ?t', None)"
    by (simp add: initializeDatabase_def checkAndMigrateSchema_def m')
  have kept: "map (\<lambda>r. (row_id r, date r, produced_eggs r, breakages r, price_per_egg r,
                      created_at r, credits r)) (rows ?t') =
           map (\<lambda>r. (row_id r, date r, produced_eggs r, breakages r, price_per_egg r,
                      created_at r, credits r)) (rows t)"
    by (simp add: comp_def)
  show ?thesis
    using first second kept by (intro exI [of _ ?t']) simp
qed

theorem initializeDatabase_adds_columns_witness:
  "''credits'' \<notin> set (columns legacy_plain) \<and>
   (\<exists>t'. initializeDatabase (Some legacy_plain) = (Some t', None) \<and>
      columns t' = [''id'', ''date'', ''produced_eggs'', ''breakages'', ''price_per_egg'',
                    ''created_at'', ''sold_eggs'', ''credit_amount'', ''credit_name''] \<and>
      rows t' = [\<lparr>row_id = 1, date = ''2023-06-01'', produced_eggs = Some 10,
                  breakages = Some 1, sold_eggs = Some 0, price_per_egg = Some 2,
                  credit_amount = Some 0, credit_name = Some [], created_at = 50,
                  credits = None\<rparr>] \<and>
      initializeDatabase (Some t') = (Some t', None))"
proof -
  have pre: "''sold_eggs'' \<notin> set (columns legacy_plain)"
    "''credit_amount'' \<notin> set (columns legacy_plain)"
    "''credit_name'' \<notin> set (columns legacy_plain)"
    "''credits'' \<notin> set (columns legacy_plain)"
    by (simp_all add: legacy_plain_def)
  from initializeDatabase_adds_columns [OF pre]
  obtain t' where t': "initializeDatabase (Some legacy_plain) = (Some t', None)"
    "columns t' = columns legacy_plain @ [''sold_eggs'', ''credit_amount'', ''credit_name'']"
    "rows t' = map (\<lambda>r. r\<lparr>sold_eggs := Some 0, credit_amount := Some 0,
                            credit_name := Some []\<rparr>) (rows legacy_plain)"
    "initializeDatabase (Some t') = (Some t', None)"
    by blast
  show ?thesis
    using pre(4) t'(1,4) by (intro conjI exI [of _ t']) (simp_all add: t'(2,3) legacy_plain_def legacy_row_def)
qed

text \<open>
  C4. On an existing table with the legacy column \<open>credits\<close> and without \<open>credit_amount\<close>,
  \<open>checkAndMigrateSchema\<close> pushes the statement that adds \<open>credit_amount\<close> twice: once
  among the missing columns and once more before the copy. The engine refuses the second
  one, so \<open>initializeDatabase\<close> logs a duplicate-column error, here on a table with one row
  whose \<open>credits\<close> is 5. In the order of issue the copy itself still runs.
\<close>

theorem initializeDatabase_legacy_credits:
  "initializeDatabase (Some legacy_credits) =
     (Some \<lparr>columns = [''id'', ''date'', ''produced_eggs'', ''breakages'', ''price_per_egg'',
                       ''credits'', ''created_at'', ''sold_eggs'', ''credit_amount'',
                       ''credit_name''],
            rows = [\<lparr>row_id = 1, date = ''2023-06-01'', produced_eggs = Some 10,
                     breakages = Some 1, sold_eggs = Some 0, price_per_egg = Some 2,
                     credit_amount = Some 5, credit_name = Some [], created_at = 50,
                     credits = Some 5\<rparr>],
            seq = 1\<rparr>,
      Some (DuplicateColumn ''credit_amount''))"
  by (simp add: initializeDatabase_def checkAndMigrateSchema_def migrations_def legacy_credits_def
      legacy_row_def add_column_def has_columns_def copy_credits_def createNewTable_def)

text \<open>The error does not depend on the order in which the engine takes the statements: a
  column can be added once, whichever statement comes first.\<close>

lemma exec_columns_mono: "exec s t = Inr t1 \<Longrightarrow> set (columns t) \<subseteq> set (columns t1)"
  by (cases s) (auto simp: add_column_def split: if_splits)

lemma add_existing_fails:
  "AddCreditAmount \<in> set ss \<Longrightarrow> ''credit_amount'' \<in> set (columns t) \<Longrightarrow>
   snd (run_all ss t) \<noteq> []"
proof (induction ss arbitrary: t)
  case Nil
  then show ?case by simp
next
  case (Cons s ss)
  show ?case
  proof (cases "exec s t")
    case (Inl e)
    then show ?thesis by (simp split: prod.splits)
  next
    case (Inr t1)
    with Cons.prems(2) have "s \<noteq> AddCreditAmount"
      by (auto simp: add_column_def)
    with Cons.prems(1) have "AddCreditAmount \<in> set ss" by simp
    moreover have "''credit_amount'' \<in> set (columns t1)"
      using exec_columns_mono [OF Inr] Cons.prems(2) by blast
    ultimately have "snd (run_all ss t1) \<noteq> []" by (rule Cons.IH)
    with Inr show ?thesis by simp
  qed
qed

lemma add_twice_fails:
  "2 \<le> count_list ss AddCreditAmount \<Longrightarrow> snd (run_all ss t) \<noteq> []"
proof (induction ss arbitrary: t)
  case Nil
  then show ?case by simp
next
  case (Cons s ss)
  show ?case
  proof (cases "exec s t")
    case (Inl e)
    then show ?thesis by (simp split: prod.splits)
  next
    case (Inr t1)
    show ?thesis
    proof (cases "s = AddCreditAmount")
      case True
      with Inr have "''credit_amount'' \<in> set (columns t1)"
        by (auto simp: add_column_def split: if_splits)
      moreover from True Cons.prems have "count_list ss AddCreditAmount \<noteq> 0"
        by simp
      then have "AddCreditAmount \<in> set ss"
        by (simp only: count_list_0_iff) simp
      ultimately have "snd (run_all ss t1) \<noteq> []"
        by (intro add_existing_fails)
      with Inr show ?thesis by simp
    next
      case False
      with Cons.prems have "2 \<le> count_list ss AddCreditAmount" by simp
      then have "snd (run_all ss t1) \<noteq> []" by (rule Cons.IH)
      with Inr show ?thesis by simp
    qed
  qed
qed

lemma migrations_add_twice:
  "''credits'' \<in> set cs \<Longrightarrow> ''credit_amount'' \<notin> set cs \<Longrightarrow>
   count_list (migrations cs) AddCreditAmount = 2"
  by (simp add: migrations_def)

lemma legacy_credits_any_order:
  assumes "''credits'' \<in> set (columns t)" and "''credit_amount'' \<notin> set (columns t)"
    and "mset ss = mset (migrations (columns t))"
  shows "snd (run_all ss t) \<noteq> []"
proof -
  have "count_list ss AddCreditAmount = count (mset ss) AddCreditAmount"
    by (simp add: count_mset)
  also have "\<dots> = count_list (migrations (columns t)) AddCreditAmount"
    by (simp add: assms(3) count_mset)
  also have "\<dots> = 2"
    using assms(1,2) by (rule migrations_add_twice)
  finally show ?thesis
    by (intro add_twice_fails) simp
qed

text \<open>In the order of issue the logged error is the duplicate column, for every such table;
  and with \<open>credit_amount\<close> already in the table nothing is added, the copy runs and no
  error is logged.\<close>

lemma initializeDatabase_duplicate_column:
  assumes "''credits'' \<in> set (columns t)" and "''credit_amount'' \<notin> set (columns t)"
  shows "snd (initializeDatabase (Some t)) = Some (DuplicateColumn ''credit_amount'')"
proof (cases "''sold_eggs'' \<in> set (columns t)")
  case sold: True
  show ?thesis
  proof (cases "''credit_name'' \<in> set (columns t)")
    case True
    with sold assms show ?thesis
      by (simp add: initializeDatabase_def checkAndMigrateSchema_def migrations_def
          add_column_def has_columns_def createNewTable_def)
  next
    case False
    with sold assms show ?thesis
      by (simp add: initializeDatabase_def checkAndMigrateSchema_def migrations_def
          add_column_def has_columns_def createNewTable_def)
  qed
next
  case sold: False
  show ?thesis
  proof (cases "''credit_name'' \<in> set (columns t)")
    case True
    with sold assms show ?thesis
      by (simp add: initializeDatabase_def checkAndMigrateSchema_def migrations_def
          add_column_def has_columns_def createNewTable_def)
  next
    case False
    with sold assms show ?thesis
      by (simp add: initializeDatabase_def checkAndMigrateSchema_def migrations_def
          add_column_def has_columns_def createNewTable_def)
  qed
qed

lemma initializeDatabase_copies_credits:
  assumes "has_columns [''sold_eggs'', ''credit_amount'', ''credit_name'', ''credits''] t"
  shows "initializeDatabase (Some t) = (Some (t\<lparr>rows := map copy_credits (rows t)\<rparr>), None)"
  using assms
  by (simp add: initializeDatabase_def checkAndMigrateSchema_def migrations_def has_columns_def)

section \<open>The export\<close>






section \<open>The summary\<close>







lemma sum_in_range_nonneg_aux:
  "0 \<le> acc \<Longrightarrow> list_all (\<lambda>v. 0 \<le> v) vs \<Longrightarrow>
   list_all in_int64 (running_totals acc vs) = (vs = [] \<or> acc + sum_list vs < 2 ^ 63)"
proof (induction vs arbitrary: acc)
  case Nil
  show ?case by simp
next
  case (Cons v vs)
  then have nn: "0 \<le> acc + v" "0 \<le> sum_list vs"
    by (auto simp: list_all_iff intro: sum_list_nonneg)
  from Cons.prems have "list_all (\<lambda>v. 0 \<le> v) vs" by simp
  from Cons.IH [OF nn(1) this] nn show ?case
    by (auto simp: in_int64_def add.assoc)
qed

text \<open>When no cell is negative, the running total stays in range exactly when the sum
  does.\<close>

lemma sum_in_range_nonneg:
  "list_all (\<lambda>v. 0 \<le> v) (present cells) \<Longrightarrow>
   sum_in_range cells = (present cells = [] \<or> sum_list (present cells) < 2 ^ 63)"
  using sum_in_range_nonneg_aux [of 0 "present cells"] by (simp add: sum_in_range_def)




section \<open>The credit name in the export\<close>

lemma special_chars:
  "dquote \<noteq> CHR '',''" "newline \<noteq> CHR '',''" "newline \<noteq> dquote" "CHR 0x0D \<noteq> dquote"
  "CHR '','' \<noteq> dquote" "CHR '','' \<noteq> newline" "dquote \<noteq> newline" "dquote \<noteq> CHR 0x0D"
  by (simp_all add: dquote_def newline_def)

text \<open>The header row of the export is itself a record of nine fields.\<close>

lemma csv_header_record: "csv_record csv_header"
  by (simp add: csv_record_def csv_header_def dquote_def newline_def)

lemma csv_fields_pos: "csv_fields s cs = Some k \<Longrightarrow> 0 < k"
proof (induction cs arbitrary: s k)
  case Nil
  then show ?case by (cases s) simp_all
next
  case (Cons c cs)
  then show ?case
    by (cases s) (auto split: if_splits)
qed

lemma csv_fields_name: "(csv_fields Quoted (n @ [dquote]) = Some 1) = quotes_doubled n"
proof (induction n rule: quotes_doubled.induct)
  case 1
  show ?case by simp
next
  case (2 c)
  show ?case by simp
next
  case (3 c d cs)
  show ?case
  proof (cases "c = dquote")
    case True
    show ?thesis
    proof (cases "d = dquote")
      case d: True
      with True 3 show ?thesis by simp
    next
      case d: False
      have "map_option Suc (csv_fields FieldStart (cs @ [dquote])) \<noteq> Some 1"
        using csv_fields_pos [of FieldStart "cs @ [dquote]"] by auto
      with True d show ?thesis by simp
    qed
  next
    case False
    with 3 show ?thesis by simp
  qed
qed

lemma csv_fields_plain_prefix:
  assumes "s = FieldStart \<or> s = Plain" and "dquote \<notin> set p"
  shows "csv_fields s (p @ CHR '','' # rest) =
           (if newline \<in> set p \<or> CHR 0x0D \<in> set p then None
            else map_option (\<lambda>k. k + Suc (count_list p (CHR '','')))
                   (csv_fields FieldStart rest))"
  using assms
proof (induction p arbitrary: s)
  case Nil
  then show ?case by (auto simp: special_chars)
next
  case (Cons c p)
  then have IH: "\<And>s'. s' = FieldStart \<or> s' = Plain \<Longrightarrow>
      csv_fields s' (p @ CHR '','' # rest) =
           (if newline \<in> set p \<or> CHR 0x0D \<in> set p then None
            else map_option (\<lambda>k. k + Suc (count_list p (CHR '','')))
                   (csv_fields FieldStart rest))"
    and c: "c \<noteq> dquote"
    by auto
  from Cons.prems(1) show ?case
    using c IH [of FieldStart] IH [of Plain]
    by (auto simp: option.map_comp comp_def special_chars)
qed

lemma csv_line_fields:
  assumes "dquote \<notin> set (date r)" and "\<And>x. dquote \<notin> set (numstr x)"
  shows "\<exists>m bad.
           csv_fields FieldStart (butlast (csv_line numstr r)) =
             (if bad then None
              else map_option (\<lambda>k. k + m)
                     (csv_fields Quoted
                        ((case credit_name r of None \<Rightarrow> [] | Some n \<Rightarrow> n) @ [dquote]))) \<and>
           8 \<le> m \<and>
           (plain_text (date r) \<and> (\<forall>x. plain_text (numstr x)) \<longrightarrow> \<not> bad \<and> m = 8)"
proof -
  let ?name = "case credit_name r of None \<Rightarrow> [] | Some n \<Rightarrow> n"
  let ?p = "date r @ '','' @
         numstr (real_of_int (or0 (produced_eggs r))) @ '','' @
         numstr (real_of_int (or0 (breakages r))) @ '','' @
         numstr (real_of_int (or0 (sold_eggs r))) @ '','' @
         numstr (real_of_int (or0 (produced_eggs r) - or0 (breakages r) - or0 (sold_eggs r))) @ '','' @
         numstr (or0 (price_per_egg r)) @ '','' @
         numstr (real_of_int (or0 (sold_eggs r)) * or0 (price_per_egg r)) @ '','' @
         numstr (or0 (credit_amount r))"
  have body: "butlast (csv_line numstr r) = ?p @ CHR '','' # dquote # ?name @ [dquote]"
    by (simp add: csv_line_def Let_def butlast_append)
  have noq: "dquote \<notin> set ?p"
    using assms by (simp add: special_chars)
  have run: "csv_fields FieldStart (butlast (csv_line numstr r)) =
           (if newline \<in> set ?p \<or> CHR 0x0D \<in> set ?p then None
            else map_option (\<lambda>k. k + Suc (count_list ?p (CHR '','')))
                   (csv_fields Quoted (?name @ [dquote])))"
    unfolding body by (subst csv_fields_plain_prefix [OF _ noq]) simp_all
  have many: "8 \<le> Suc (count_list ?p (CHR '',''))"
    by simp
  have plain: "\<not> (newline \<in> set ?p \<or> CHR 0x0D \<in> set ?p) \<and> Suc (count_list ?p (CHR '','')) = 8"
    if "plain_text (date r) \<and> (\<forall>x. plain_text (numstr x))"
    using that by (simp add: plain_text_def special_chars)
  show ?thesis
    using run many plain by blast
qed

lemma csv_line_not_doubled:
  assumes "dquote \<notin> set (date r)" and "\<And>x. dquote \<notin> set (numstr x)"
    and "\<not> quotes_doubled (case credit_name r of None \<Rightarrow> [] | Some n \<Rightarrow> n)"
  shows "\<not> csv_record (csv_line numstr r)"
proof
  let ?name = "case credit_name r of None \<Rightarrow> [] | Some n \<Rightarrow> n"
  assume "csv_record (csv_line numstr r)"
  then have nine: "csv_fields FieldStart (butlast (csv_line numstr r)) = Some 9"
    by (simp add: csv_record_def split: if_splits)
  from csv_line_fields [of r numstr, OF assms(1,2)] obtain m bad where
    run: "csv_fields FieldStart (butlast (csv_line numstr r)) =
             (if bad then None
              else map_option (\<lambda>k. k + m) (csv_fields Quoted (?name @ [dquote])))"
    and m: "8 \<le> m"
    by blast
  from nine run obtain k where k: "csv_fields Quoted (?name @ [dquote]) = Some k" "k + m = 9"
    by (auto split: if_splits)
  from csv_fields_pos [OF k(1)] k(2) m have "k = 1" by simp
  with k(1) have "quotes_doubled ?name"
    by (simp add: csv_fields_name [symmetric])
  with assms(3) show False by simp
qed

lemma csv_line_doubled:
  assumes "plain_text (date r)" and "\<And>x. plain_text (numstr x)"
    and "quotes_doubled (case credit_name r of None \<Rightarrow> [] | Some n \<Rightarrow> n)"
  shows "csv_record (csv_line numstr r)"
proof -
  let ?name = "case credit_name r of None \<Rightarrow> [] | Some n \<Rightarrow> n"
  have noq: "dquote \<notin> set (date r)" "\<And>x. dquote \<notin> set (numstr x)"
    using assms(1,2) by (auto simp: plain_text_def)
  from csv_line_fields [of r numstr, OF noq] obtain m bad where
    run: "csv_fields FieldStart (butlast (csv_line numstr r)) =
             (if bad then None
              else map_option (\<lambda>k. k + m) (csv_fields Quoted (?name @ [dquote])))"
    and plain: "plain_text (date r) \<and> (\<forall>x. plain_text (numstr x)) \<longrightarrow> \<not> bad \<and> m = 8"
    by blast
  from plain assms(1,2) have "\<not> bad" "m = 8" by auto
  moreover have "csv_fields Quoted (?name @ [dquote]) = Some 1"
    using assms(3) by (simp only: csv_fields_name)
  ultimately have "csv_fields FieldStart (butlast (csv_line numstr r)) = Some 9"
    using run by simp
  moreover have "csv_line numstr r \<noteq> []" "last (csv_line numstr r) = newline"
    by (simp_all add: csv_line_def Let_def)
  ultimately show ?thesis
    by (simp add: csv_record_def)
qed

lemma decimal_digits: "set (decimal n) \<subseteq> set ''0123456789''"
proof (induction n rule: decimal.induct)
  case (1 n)
  show ?case
  proof (cases "n < 10")
    case True
    then have "''0123456789'' ! n \<in> set ''0123456789''"
      by (intro nth_mem) simp
    with True show ?thesis
      by (subst decimal.simps) simp
  next
    case False
    have "n mod 10 < length ''0123456789''" by simp
    then have "''0123456789'' ! (n mod 10) \<in> set ''0123456789''"
      by (rule nth_mem)
    with False 1 show ?thesis
      by (subst decimal.simps) simp
  qed
qed

lemma whole_number_plain: "plain_text (whole_number x)"
  using decimal_digits [of "nat \<lfloor>x\<rfloor>"]
  by (auto simp: whole_number_def plain_text_def dquote_def newline_def)

lemma update_absent_date:
  "d \<notin> set (map date xs) \<Longrightarrow> map (\<lambda>r. if date r = d then g r else r) xs = xs"
  by (induction xs) auto

lemma merged_names_same_table:
  assumes "has_columns full_columns t" and "d \<notin> set (map date (rows t))"
    and "0 < a" and "0 < b" and "0 < fadd a b" and "X \<noteq> []" and "Y \<noteq> []"
  shows "\<exists>t1 t2. addCreditOnly fadd now (credit_form d a X) t = Inr (t1, 1) \<and>
           addCreditOnly fadd later (credit_form d b Y) t1 = Inr (t2, 1) \<and>
           addCreditOnly fadd now (credit_form d (fadd a b) (X @ '', '' @ Y)) t = Inr (t2, 1)"
proof -
  let ?new = "\<lambda>c n. new_row (next_id t) now d (Some 0) (Some 0) (Some 0) (Some 0) (Some c) (Some n)"
  let ?t1 = "t\<lparr>rows := rows t @ [?new a X], seq := next_id t\<rparr>"
  let ?t2 = "t\<lparr>rows := rows t @ [?new (fadd a b) (X @ '', '' @ Y)], seq := next_id t\<rparr>"
  have first: "addCreditOnly fadd now (credit_form d a X) t = Inr (?t1, 1)"
    using addCreditOnly_absent [of t "credit_form d a X" a fadd now] assms
    by (simp add: credit_form_def)
  have once: "addCreditOnly fadd now (credit_form d (fadd a b) (X @ '', '' @ Y)) t = Inr (?t2, 1)"
    using addCreditOnly_absent [of t "credit_form d (fadd a b) (X @ '', '' @ Y)" "fadd a b" fadd now]
      assms
    by (simp add: credit_form_def)
  have cols1: "has_columns full_columns ?t1"
    using assms(1) by (simp add: has_columns_def)
  have none: "filter (\<lambda>r. date r = d) (rows t) = []"
    using assms(2) by (intro filter_key_absent) simp
  then have "filter (\<lambda>r. date r = d) (rows ?t1) = [?new a X]"
    by (simp add: new_row_def)
  then have found: "find (\<lambda>r. date r = f_date (credit_form d b Y)) (rows ?t1) = Some (?new a X)"
    by (intro find_of_filter_single) (simp add: credit_form_def)
  have second: "addCreditOnly fadd later (credit_form d b Y) ?t1 = Inr (?t2, 1)"
    using addCreditOnly_present [OF cols1 found, of b fadd later] assms(4,6,7) none
      update_absent_date [OF assms(2)]
    by (simp add: credit_form_def new_row_def or0_def newCreditName_def)
  from first second once show ?thesis by blast
qed

text \<open>
  C10, as claimed, fails: a credit name made of two double quotes contains a double quote,
  and a credit name may contain a line feed, yet in both cases the line of the export is a
  well-formed record of nine fields (the first reads back as a name of one double quote,
  the second as the name itself).
\<close>

theorem csv_line_quote_counterexample:
  "dquote \<in> set [dquote, dquote] \<and>
   csv_line whole_number (row_d1\<lparr>credit_name := Some [dquote, dquote]\<rparr>) =
     ''2024-01-01,10,1,5,4,2,10,3,'' @ [dquote, dquote, dquote, dquote, newline] \<and>
   csv_record (csv_line whole_number (row_d1\<lparr>credit_name := Some [dquote, dquote]\<rparr>)) \<and>
   newline \<in> set (''A'' @ [newline] @ ''B'') \<and>
   csv_record (csv_line whole_number (row_d1\<lparr>credit_name := Some (''A'' @ [newline] @ ''B'')\<rparr>))"
  by (simp add: csv_line_def row_d1_def or0_def whole_number_def decimal.simps csv_record_def
      dquote_def newline_def)

text \<open>
  C10, amended. The export writes the credit name as it is stored between two double quotes,
  with no escaping. So for every record whose credit name contains a double quote that is
  not doubled (read from the left, a double quote not followed at once by a second one),
  its date and its printed numbers holding no double quote, the line is not a well-formed
  record. The names left out are exactly those in which every double quote is doubled: for
  them, with a line feed in the name or without, and with a plain date and plain numbers,
  the line is a well-formed record (one that reads back as a name with half the quotes).
  And two credit-only additions for customers \<open>X\<close> and \<open>Y\<close> on a new date leave the very
  table that one addition for a customer named \<open>X, Y\<close> leaves, so the exports are the
  same.
\<close>

theorem csv_line_credit_name_verbatim:
  assumes "has_columns full_columns t" and "d \<notin> set (map date (rows t))"
    and "0 < a" and "0 < b" and "0 < fadd a b" and "X \<noteq> []" and "Y \<noteq> []"
  shows "(\<forall>r n. credit_name r = Some n \<longrightarrow>
            (\<exists>pre. csv_line numstr r = pre @ [dquote] @ n @ [dquote, newline]) \<and>
            (\<not> quotes_doubled n \<and> dquote \<notin> set (date r) \<and>
             (\<forall>x. dquote \<notin> set (numstr x)) \<longrightarrow>
               \<not> csv_record (csv_line numstr r)) \<and>
            (quotes_doubled n \<and> plain_text (date r) \<and> (\<forall>x. plain_text (numstr x)) \<longrightarrow>
               csv_record (csv_line numstr r))) \<and>
         (\<exists>t1 t2 t3.
            addCreditOnly fadd now (credit_form d a X) t = Inr (t1, 1) \<and>
            addCreditOnly fadd later (credit_form d b Y) t1 = Inr (t2, 1) \<and>
            addCreditOnly fadd now (credit_form d (fadd a b) (X @ '', '' @ Y)) t = Inr (t3, 1) \<and>
            exportData numstr t2 = exportData numstr t3)"
proof (intro conjI allI impI)
  fix r :: row and n
  assume "credit_name r = Some n"
  then show "\<exists>pre. csv_line numstr r = pre @ [dquote] @ n @ [dquote, newline]"
    by (simp add: csv_line_def Let_def)
next
  fix r :: row and n
  assume n: "credit_name r = Some n"
    and h: "\<not> quotes_doubled n \<and> dquote \<notin> set (date r) \<and> (\<forall>x. dquote \<notin> set (numstr x))"
  show "\<not> csv_record (csv_line numstr r)"
    using h n by (intro csv_line_not_doubled) simp_all
next
  fix r :: row and n
  assume n: "credit_name r = Some n"
    and h: "quotes_doubled n \<and> plain_text (date r) \<and> (\<forall>x. plain_text (numstr x))"
  show "csv_record (csv_line numstr r)"
    using h n by (intro csv_line_doubled) simp_all
next
  from merged_names_same_table [where fadd = fadd and now = now and later = later, OF assms]
  show "\<exists>t1 t2 t3.
            addCreditOnly fadd now (credit_form d a X) t = Inr (t1, 1) \<and>
            addCreditOnly fadd later (credit_form d b Y) t1 = Inr (t2, 1) \<and>
            addCreditOnly fadd now (credit_form d (fadd a b) (X @ '', '' @ Y)) t = Inr (t3, 1) \<and>
            exportData numstr t2 = exportData numstr t3"
    by blast
qed

text \<open>A quoted word inside the name, \<open>a"b"c\<close>, holds two double quotes and gives a line
  that is no record; the name of two double quotes in a row gives a record.\<close>

theorem csv_line_credit_name_verbatim_witness:
  "''2024-01-03'' \<notin> set (map date (rows two_days)) \<and>
   \<not> quotes_doubled (''a'' @ [dquote] @ ''b'' @ [dquote] @ ''c'') \<and>
   quotes_doubled [dquote, dquote] \<and>
   plain_text (date row_d1) \<and> (\<forall>x. plain_text (whole_number x)) \<and>
   csv_line whole_number (row_d1\<lparr>credit_name := Some (''a'' @ [dquote] @ ''b'' @ [dquote] @ ''c'')\<rparr>) =
     ''2024-01-01,10,1,5,4,2,10,3,'' @ [dquote] @ ''a'' @ [dquote] @ ''b'' @ [dquote] @ ''c'' @
     [dquote, newline] \<and>
   \<not> csv_record
       (csv_line whole_number
          (row_d1\<lparr>credit_name := Some (''a'' @ [dquote] @ ''b'' @ [dquote] @ ''c'')\<rparr>)) \<and>
   csv_record (csv_line whole_number (row_d1\<lparr>credit_name := Some [dquote, dquote]\<rparr>)) \<and>
   (\<exists>t1 t2 t3.
      addCreditOnly (+) 300 (credit_form ''2024-01-03'' 3 ''Asha'') two_days = Inr (t1, 1) \<and>
      addCreditOnly (+) 400 (credit_form ''2024-01-03'' 4 ''Bea'') t1 = Inr (t2, 1) \<and>
      addCreditOnly (+) 300 (credit_form ''2024-01-03'' 7 ''Asha, Bea'') two_days = Inr (t3, 1) \<and>
      exportData whole_number t2 = exportData whole_number t3)"
proof -
  let ?n = "''a'' @ [dquote] @ ''b'' @ [dquote] @ ''c''"
  let ?r = "row_d1\<lparr>credit_name := Some ?n\<rparr>"
  let ?r2 = "row_d1\<lparr>credit_name := Some [dquote, dquote]\<rparr>"
  have fresh: "''2024-01-03'' \<notin> set (map date (rows two_days))"
    by (simp add: two_days_def row_d1_def row_d2_def)
  have pos: "(0::real) < 3" "(0::real) < 4" "(0::real) < 3 + 4" "''Asha'' \<noteq> []" "''Bea'' \<noteq> []"
    by simp_all
  note T = csv_line_credit_name_verbatim [where fadd = "(+)" and numstr = whole_number
      and now = 300 and later = 400, OF two_days_columns fresh pos]
  have plain: "plain_text (date row_d1)" "\<forall>x. plain_text (whole_number x)"
    by (simp_all add: whole_number_plain) (simp add: row_d1_def plain_text_def dquote_def newline_def)
  have noq: "dquote \<notin> set (date ?r)" "\<forall>x. dquote \<notin> set (whole_number x)"
    using plain by (auto simp: plain_text_def)
  have single: "\<not> quotes_doubled ?n"
    by (simp add: dquote_def)
  have pair: "quotes_doubled [dquote, dquote]"
    by simp
  have line: "csv_line whole_number ?r =
     ''2024-01-01,10,1,5,4,2,10,3,'' @ [dquote] @ ''a'' @ [dquote] @ ''b'' @ [dquote] @ ''c'' @
     [dquote, newline]"
    by (simp add: csv_line_def row_d1_def or0_def whole_number_def decimal.simps)
  have bad: "\<not> csv_record (csv_line whole_number ?r)"
    using T [THEN conjunct1, rule_format, of ?r ?n, THEN conjunct2, THEN conjunct1] single noq
    by simp
  have good: "csv_record (csv_line whole_number ?r2)"
    using T [THEN conjunct1, rule_format, of ?r2 "[dquote, dquote]", THEN conjunct2, THEN conjunct2]
      pair plain
    by simp
  have merged: "\<exists>t1 t2 t3.
      addCreditOnly (+) 300 (credit_form ''2024-01-03'' 3 ''Asha'') two_days = Inr (t1, 1) \<and>
      addCreditOnly (+) 400 (credit_form ''2024-01-03'' 4 ''Bea'') t1 = Inr (t2, 1) \<and>
      addCreditOnly (+) 300 (credit_form ''2024-01-03'' 7 ''Asha, Bea'') two_days = Inr (t3, 1) \<and>
      exportData whole_number t2 = exportData whole_number t3"
    using T [THEN conjunct2] by simp
  from fresh single pair plain line bad good merged show ?thesis
    by simp
qed

end
